theory Spec2Isabelle
  imports Complex_Main "HOL-Library.Product_Lexorder" "HOL-Library.AList"
begin

section \<open>Dates\<close>

text \<open>
  The request carries its dates as strings of the form YYYY-MM-DD, the handler parses the
  start date with \<^verbatim>\<open>datetime.strptime(start_date, '%Y-%m-%d')\<close>, and the index of every
  price table is a calendar day. A date is modelled as the triple (year, month, day); the
  order of dates is the lexicographic order of the triples, which is the order of the
  timestamps and of the zero-padded strings alike.
\<close>

type_synonym date = "int \<times> int \<times> int"

definition is_leap :: "int \<Rightarrow> bool" where
  "is_leap y = (y mod 4 = 0 \<and> (y mod 100 \<noteq> 0 \<or> y mod 400 = 0))"

definition days_in_month :: "int \<Rightarrow> int \<Rightarrow> int" where
  "days_in_month y m =
     (if m = 2 then (if is_leap y then 29 else 28)
      else if m = 4 \<or> m = 6 \<or> m = 9 \<or> m = 11 then 30 else 31)"

text \<open>
  \<^verbatim>\<open>strptime\<close> raises ValueError on a string that names no day of the calendar
  (years 1 to 9999).
\<close>

fun valid_date :: "date \<Rightarrow> bool" where
  "valid_date (y, m, d) =
     (1 \<le> y \<and> y \<le> 9999 \<and> 1 \<le> m \<and> m \<le> 12 \<and> 1 \<le> d \<and> d \<le> days_in_month y m)"

fun prev_day :: "date \<Rightarrow> date" where
  "prev_day (y, m, d) =
     (if 1 < d then (y, m, d - 1)
      else if 1 < m then (y, m - 1, days_in_month y (m - 1))
      else (y - 1, 12, 31))"

fun next_day :: "date \<Rightarrow> date" where
  "next_day (y, m, d) =
     (if d < days_in_month y m then (y, m, d + 1)
      else if m < 12 then (y, m + 1, 1)
      else (y + 1, 1, 1))"

definition sub_days :: "date \<Rightarrow> nat \<Rightarrow> date" where
  "sub_days d n = (prev_day ^^ n) d"

definition add_days :: "date \<Rightarrow> nat \<Rightarrow> date" where
  "add_days d n = (next_day ^^ n) d"

text \<open>
  The ordinal of a date (day 1 is 0001-01-01, a Monday) and the day of the week
  (Monday is 0, Friday is 4), as \<^verbatim>\<open>date.toordinal\<close> and \<^verbatim>\<open>date.weekday\<close> compute them.
\<close>

definition days_before_year :: "int \<Rightarrow> int" where
  "days_before_year y =
     (let p = y - 1 in p * 365 + p div 4 - p div 100 + p div 400)"

definition days_before_month :: "int \<Rightarrow> int \<Rightarrow> int" where
  "days_before_month y m = (\<Sum>k \<leftarrow> [1..m - 1]. days_in_month y k)"

fun toordinal :: "date \<Rightarrow> int" where
  "toordinal (y, m, d) = days_before_year y + days_before_month y m + d"

definition weekday :: "date \<Rightarrow> int" where
  "weekday d = (toordinal d + 6) mod 7"

text \<open>
  The index of a price table holds pandas timestamps, and \<^verbatim>\<open>.loc[start_date:]\<close> turns the
  start date into one: the days a timestamp can hold lie between 1677-09-21 and 2262-04-11,
  and for a start date whose day does not lie strictly between the two the slice raises
  OutOfBoundsDatetime (midnight of 1677-09-21 is before the first timestamp, the end of
  2262-04-11 after the last).
\<close>

definition timestamp_ok :: "date \<Rightarrow> bool" where
  "timestamp_ok d = ((1677, 9, 21) < d \<and> d < (2262, 4, 11))"

text \<open>
  \<^verbatim>\<open>strftime('%Y-%m-%d')\<close> writes four, two and two digits. \<^verbatim>\<open>strptime\<close> also reads a
  month and a day below 10 that are written with one digit, so the text of a start date is
  given by its day and by how month and day are written. Python orders strings like lists
  of code points.
\<close>

definition digit :: "int \<Rightarrow> char" where
  "digit n = ''0123456789'' ! nat (n mod 10)"

definition two_digits :: "int \<Rightarrow> string" where
  "two_digits n = [digit (n div 10), digit n]"

definition four_digits :: "int \<Rightarrow> string" where
  "four_digits n = [digit (n div 1000), digit (n div 100), digit (n div 10), digit n]"

fun strftime :: "date \<Rightarrow> string" where
  "strftime (y, m, d) = four_digits y @ ''-'' @ two_digits m @ ''-'' @ two_digits d"

datatype width = Padded | Bare

fun written :: "width \<Rightarrow> int \<Rightarrow> string" where
  "written Padded n = two_digits n"
| "written Bare n = (if n < 10 then [digit n] else two_digits n)"

fun date_text :: "width \<times> width \<Rightarrow> date \<Rightarrow> string" where
  "date_text (wm, wd) (y, m, d) = four_digits y @ ''-'' @ written wm m @ ''-'' @ written wd d"

fun str_less :: "string \<Rightarrow> string \<Rightarrow> bool" where
  "str_less [] [] = False"
| "str_less [] (b # bs) = True"
| "str_less (a # as) [] = False"
| "str_less (a # as) (b # bs) =
     ((of_char a :: nat) < of_char b \<or> (a = b \<and> str_less as bs))"

definition str_ge :: "string \<Rightarrow> string \<Rightarrow> bool" where
  "str_ge a b = (\<not> str_less a b)"

section \<open>Float values\<close>

text \<open>
  A cell of a pandas float column is a finite number, an infinity or NaN (the missing
  value). A close price is a finite number.
\<close>

datatype fval = Fin real | PInf | NInf | NaN

type_synonym price_series = "(date \<times> real) list"
type_synonym series = "(date \<times> fval) list"

text \<open>
  The return calculator and the rounding of the output compute in binary64: the exact
  result of an operation is rounded to the nearest number with 53 binary digits, a tie to
  the one with an even last digit (numbers below \<open>2 ^ - 1022\<close> keep the spacing
  \<open>2 ^ - 1074\<close>), and a result of magnitude \<open>2 ^ 1024\<close> or more is an infinity. The sign of
  zero is not modelled.
\<close>

definition rint :: "real \<Rightarrow> real" where
  "rint x =
     (let f = \<lfloor>x\<rfloor>; r = x - of_int f in
      if r < 1 / 2 then of_int f
      else if 1 / 2 < r then of_int (f + 1)
      else if even f then of_int f else of_int (f + 1))"

definition binade :: "real \<Rightarrow> int" where
  "binade x = max \<lfloor>log 2 \<bar>x\<bar>\<rfloor> (- 1022)"

definition fl :: "real \<Rightarrow> fval" where
  "fl x =
     (if x = 0 then Fin 0
      else
        (let q = 2 powr of_int (binade x - 52); y = rint (x / q) * q in
         if 2 ^ 1024 \<le> \<bar>y\<bar> then (if 0 < x then PInf else NInf) else Fin y))"

text \<open>Float division of two closes, either of which can be missing (None).\<close>

fun fdiv :: "real option \<Rightarrow> real option \<Rightarrow> fval" where
  "fdiv (Some a) (Some b) =
     (if b \<noteq> 0 then fl (a / b)
      else if 0 < a then PInf else if a < 0 then NInf else NaN)"
| "fdiv _ _ = NaN"

fun fsub :: "fval \<Rightarrow> real \<Rightarrow> fval" where
  "fsub (Fin a) c = fl (a - c)"
| "fsub v c = v"

text \<open>Multiplication by a positive constant.\<close>

fun fscale :: "fval \<Rightarrow> real \<Rightarrow> fval" where
  "fscale (Fin a) c = fl (a * c)"
| "fscale v c = v"

text \<open>
  The sum and the quotient of the mean of a row are taken exactly, as is the correlation:
  their rounding error is not modelled.
\<close>

fun fadd :: "fval \<Rightarrow> fval \<Rightarrow> fval" where
  "fadd (Fin a) (Fin b) = Fin (a + b)"
| "fadd NaN _ = NaN"
| "fadd _ NaN = NaN"
| "fadd PInf NInf = NaN"
| "fadd NInf PInf = NaN"
| "fadd PInf _ = PInf"
| "fadd _ PInf = PInf"
| "fadd NInf _ = NInf"
| "fadd _ NInf = NInf"

text \<open>
  \<^verbatim>\<open>Series.round(2)\<close> is numpy's rounding: the float is multiplied by 100, rounded to an
  integer (a tie to the even one) and divided by 100, each step in binary64.
\<close>

fun round2 :: "fval \<Rightarrow> fval" where
  "round2 (Fin x) = (case fl (x * 100) of Fin y \<Rightarrow> fl (rint y / 100) | v \<Rightarrow> v)"
| "round2 v = v"

definition dropna :: "('a \<times> fval) list \<Rightarrow> ('a \<times> fval) list" where
  "dropna s = filter (\<lambda>(d, v). v \<noteq> NaN) s"

section \<open>The return calculator\<close>

text \<open>
  \<^verbatim>\<open>Series.pct_change()\<close> (pandas before 3.0, where the rule 'M' of the source is
  accepted): missing values are first filled forward from the last observation, then each
  value is divided by its predecessor and 1 is subtracted. The first entry has no
  predecessor and is NaN; it stays in the series.
\<close>

fun ffill :: "real option \<Rightarrow> ('a \<times> real option) list \<Rightarrow> ('a \<times> real option) list" where
  "ffill prev [] = []"
| "ffill prev ((d, None) # xs) = (d, prev) # ffill prev xs"
| "ffill prev ((d, Some c) # xs) = (d, Some c) # ffill (Some c) xs"

fun div_shift :: "real option \<Rightarrow> ('a \<times> real option) list \<Rightarrow> ('a \<times> fval) list" where
  "div_shift prev [] = []"
| "div_shift prev ((d, c) # xs) = (d, fsub (fdiv c prev) 1) # div_shift c xs"

definition pct_change :: "('a \<times> real option) list \<Rightarrow> ('a \<times> fval) list" where
  "pct_change s = div_shift None (ffill None s)"

definition times100 :: "('a \<times> fval) list \<Rightarrow> ('a \<times> fval) list" where
  "times100 s = map (\<lambda>(d, v). (d, fscale v 100)) s"

definition close_col :: "price_series \<Rightarrow> (date \<times> real option) list" where
  "close_col price_df = map (\<lambda>(d, c). (d, Some c)) price_df"

text \<open>
  \<^verbatim>\<open>Series.resample(rule).last()\<close>: every observation falls into the bucket labelled by
  the Friday on or after it (rule W-FRI) or by the last day of its month (rule M); the
  result has one row for every bucket from the first label to the last, holding the last
  close of the bucket, or NaN for a bucket with no observation.
\<close>

datatype rule = W_FRI | MonthEnd

fun month_end :: "int \<Rightarrow> date" where
  "month_end k = (k div 12, k mod 12 + 1, days_in_month (k div 12) (k mod 12 + 1))"

fun month_index :: "date \<Rightarrow> int" where
  "month_index (y, m, d) = y * 12 + (m - 1)"

fun label :: "rule \<Rightarrow> date \<Rightarrow> date" where
  "label W_FRI d = add_days d (nat ((4 - weekday d) mod 7))"
| "label MonthEnd d = month_end (month_index d)"

fun labels_between :: "rule \<Rightarrow> date \<Rightarrow> date \<Rightarrow> date list" where
  "labels_between W_FRI a b =
     map (\<lambda>i. add_days a (7 * i)) [0 ..< nat ((toordinal b - toordinal a) div 7) + 1]"
| "labels_between MonthEnd a b = map month_end [month_index a .. month_index b]"

definition last_opt :: "'a list \<Rightarrow> 'a option" where
  "last_opt xs = (if xs = [] then None else Some (last xs))"

definition resample_last :: "rule \<Rightarrow> price_series \<Rightarrow> (date \<times> real option) list" where
  "resample_last r s =
     (if s = [] then []
      else map (\<lambda>l. (l, last_opt (map snd (filter (\<lambda>(d, c). label r d = l) s))))
             (labels_between r (label r (fst (hd s))) (label r (fst (last s)))))"

datatype py_error =
  FetchFailed | ResampleRuleError | ValueError | OverflowError | TypeError | AttributeError |
  OutOfBoundsDatetime | NotDatetimeIndex

text \<open>
  \<^verbatim>\<open>{'W': 'W-FRI', 'M': 'M'}.get(timeframe)\<close> is None for any other timeframe, and
  \<^verbatim>\<open>resample(None)\<close> raises.
\<close>

definition resample_period :: "string \<Rightarrow> rule option" where
  "resample_period timeframe =
     (if timeframe = ''W'' then Some W_FRI
      else if timeframe = ''M'' then Some MonthEnd else None)"

definition resample_and_calculate_returns :: "price_series \<Rightarrow> string \<Rightarrow> py_error + series" where
  "resample_and_calculate_returns price_df timeframe =
     (if timeframe = ''D'' then Inr (times100 (pct_change (close_col price_df)))
      else case resample_period timeframe of
             None \<Rightarrow> Inl ResampleRuleError
           | Some r \<Rightarrow> Inr (times100 (pct_change (resample_last r price_df))))"

section \<open>Theme average\<close>

text \<open>
  \<^verbatim>\<open>pd.concat(theme_period_returns_list, axis=1)\<close> joins the series on the sorted union of
  their dates, with NaN where a series has no row; \<^verbatim>\<open>mean(axis=1)\<close> skips NaN and is NaN
  for a row with no value at all.
\<close>

definition cell :: "series \<Rightarrow> date \<Rightarrow> fval" where
  "cell s d = (case map_of s d of None \<Rightarrow> NaN | Some v \<Rightarrow> v)"

definition union_index :: "series list \<Rightarrow> date list" where
  "union_index cols = sort (remdups (concat (map (map fst) cols)))"

definition concat_axis1 :: "series list \<Rightarrow> (date \<times> fval list) list" where
  "concat_axis1 cols = map (\<lambda>d. (d, map (\<lambda>s. cell s d) cols)) (union_index cols)"

fun fdivn :: "fval \<Rightarrow> nat \<Rightarrow> fval" where
  "fdivn (Fin a) n = Fin (a / real n)"
| "fdivn v n = v"

definition row_mean :: "fval list \<Rightarrow> fval" where
  "row_mean vs =
     (let xs = filter (\<lambda>v. v \<noteq> NaN) vs in
      if xs = [] then NaN else fdivn (foldl fadd (Fin 0) xs) (length xs))"

definition mean_axis1 :: "(date \<times> fval list) list \<Rightarrow> series" where
  "mean_axis1 tbl = map (\<lambda>(d, vs). (d, row_mean vs)) tbl"

definition theme_avg_return :: "series list \<Rightarrow> series" where
  "theme_avg_return theme_period_returns_list = mean_axis1 (concat_axis1 theme_period_returns_list)"

section \<open>Correlation\<close>

text \<open>
  \<^verbatim>\<open>pd.DataFrame(themed_returns_data)\<close> is a table with one column for each theme, on the
  sorted union of the dates; \<^verbatim>\<open>.loc[start_date:]\<close> keeps the rows from the start date on;
  \<^verbatim>\<open>.corr()\<close> is the Pearson coefficient of every pair of columns over the rows where both
  are finite, and NaN where there is no such row or a column is constant there.
\<close>

record dataframe =
  index :: "date list"
  columns :: "(string \<times> fval list) list"

definition DataFrame :: "(string \<times> series) list \<Rightarrow> dataframe" where
  "DataFrame d =
     (let idx = union_index (map snd d) in
      \<lparr>index = idx, columns = map (\<lambda>(k, s). (k, map (cell s) idx)) d\<rparr>)"

definition loc_col :: "date \<Rightarrow> date list \<Rightarrow> 'a list \<Rightarrow> 'a list" where
  "loc_col start_date idx col = map snd (filter (\<lambda>(d, v). start_date \<le> d) (zip idx col))"

definition loc_df :: "date \<Rightarrow> dataframe \<Rightarrow> dataframe" where
  "loc_df start_date df =
     \<lparr>index = filter (\<lambda>d. start_date \<le> d) (index df),
      columns = map (\<lambda>(k, col). (k, loc_col start_date (index df) col)) (columns df)\<rparr>"

definition loc_series :: "date \<Rightarrow> series \<Rightarrow> series" where
  "loc_series start_date s = filter (\<lambda>(d, v). start_date \<le> d) s"

fun finite_pairs :: "fval list \<Rightarrow> fval list \<Rightarrow> (real \<times> real) list" where
  "finite_pairs (Fin x # xs) (Fin y # ys) = (x, y) # finite_pairs xs ys"
| "finite_pairs (u # xs) (v # ys) = finite_pairs xs ys"
| "finite_pairs xs ys = []"

definition mean :: "real list \<Rightarrow> real" where
  "mean xs = sum_list xs / real (length xs)"

definition ssqdm :: "real list \<Rightarrow> real" where
  "ssqdm xs = (\<Sum>x \<leftarrow> xs. (x - mean xs) * (x - mean xs))"

definition covsum :: "(real \<times> real) list \<Rightarrow> real" where
  "covsum ps = (\<Sum>(x, y) \<leftarrow> ps. (x - mean (map fst ps)) * (y - mean (map snd ps)))"

definition pearson :: "(real \<times> real) list \<Rightarrow> fval" where
  "pearson ps =
     (let divisor = sqrt (ssqdm (map fst ps) * ssqdm (map snd ps)) in
      if ps = [] then NaN
      else if divisor \<noteq> 0 then Fin (covsum ps / divisor) else NaN)"

definition corr :: "dataframe \<Rightarrow> (string \<times> (string \<times> fval) list) list" where
  "corr df =
     map (\<lambda>(a, ca). (a, map (\<lambda>(b, cb). (b, pearson (finite_pairs ca cb))) (columns df)))
       (columns df)"

section \<open>The request handler\<close>

record theme =
  theme_name :: string
  theme_codes :: "string list"

text \<open>
  The JSON body. A key that is absent (or, for the dates, empty) is None; an absent list of
  themes is the empty list. The start date is the day it names together with the way its
  month and day are written.
\<close>

record request =
  themes :: "theme list"
  startDate :: "date option"
  startDate_written :: "width \<times> width"
  endDate :: "date option"
  timeframe :: "string option"

type_synonym out_row = "date \<times> string \<times> fval"

record payload =
  themed_returns :: "out_row list"
  stock_level_returns :: "out_row list"
  correlation_matrix :: "(string \<times> (string \<times> fval) list) list"

datatype response = Error400 | Error500 | Unhandled py_error | Success payload

text \<open>
  The price reader \<^verbatim>\<open>fdr.DataReader(code, start, end)\<close> is a parameter: it raises (Inl) or
  returns a table. The index of the table is a DatetimeIndex (Timed: the rows of the close
  column in date order) or an index of another kind, without timestamps (Untimed: the
  closes in the order of the rows). The trace records every call of the reader and of the
  return calculator.
\<close>

datatype price_frame = Timed price_series | Untimed "real list"

fun frame_empty :: "price_frame \<Rightarrow> bool" where
  "frame_empty (Timed price_df) = (price_df = [])"
| "frame_empty (Untimed closes) = (closes = [])"

type_synonym fetcher = "string \<Rightarrow> date \<Rightarrow> date \<Rightarrow> py_error + price_frame"

datatype event = Fetch string date date | Compute string

text \<open>
  The return calculator on a table of either kind. The daily percent change needs no
  timestamps and yields a series on the index of the table (OffDates: its values);
  \<^verbatim>\<open>resample\<close> raises TypeError on an index that is not a DatetimeIndex.
\<close>

datatype returns = OnDates series | OffDates "fval list"

fun period_return_of :: "price_frame \<Rightarrow> string \<Rightarrow> py_error + returns" where
  "period_return_of (Timed price_df) tf =
     (case resample_and_calculate_returns price_df tf of
        Inl e \<Rightarrow> Inl e | Inr r \<Rightarrow> Inr (OnDates r))"
| "period_return_of (Untimed closes) tf =
     (if tf = ''D''
      then Inr (OffDates (map snd (times100 (pct_change (map (\<lambda>c. ((), Some c)) closes)))))
      else case resample_period tf of
             None \<Rightarrow> Inl ResampleRuleError | Some r \<Rightarrow> Inl TypeError)"

definition stock_name_of :: "(string \<times> string) list \<Rightarrow> string \<Rightarrow> string" where
  "stock_name_of ALL_STOCKS_LIST code =
     (case map_of ALL_STOCKS_LIST code of None \<Rightarrow> code | Some n \<Rightarrow> n)"

text \<open>
  Lines 99 to 105: the stock-level table of a code. \<^verbatim>\<open>index.strftime\<close> raises
  AttributeError on an index that is not a DatetimeIndex. The rows are trimmed by comparing
  the text of their dates with the text of the start date.
\<close>

fun stock_df :: "string \<Rightarrow> string \<Rightarrow> string \<Rightarrow> price_frame \<Rightarrow> py_error + out_row list" where
  "stock_df stock_name code start_date (Untimed closes) = Inl AttributeError"
| "stock_df stock_name code start_date (Timed price_df) =
     Inr (let daily_return = times100 (pct_change (close_col price_df));
              rows = map (\<lambda>(d, v). (d, stock_name @ '' ('' @ code @ '')'', round2 v))
                       daily_return;
              kept = filter (\<lambda>(d, n, v). v \<noteq> NaN) rows
          in filter (\<lambda>(d, n, v). str_ge (strftime d) start_date) kept)"

text \<open>
  The body of the loop over the codes of a theme, in the order of the source. The state is
  the list of period returns of the theme, the stock-level tables and the trace. The period
  return is appended (line 96) before the stock-level table is built: an exception of
  lines 99 to 105 is caught like any other, and leaves the period return in the list.
\<close>

fun code_step ::
  "(string \<times> string) list \<Rightarrow> fetcher \<Rightarrow> date \<Rightarrow> date \<Rightarrow> string \<Rightarrow> string \<Rightarrow>
   returns list \<times> out_row list list \<times> event list \<Rightarrow> string \<Rightarrow>
   returns list \<times> out_row list list \<times> event list" where
  "code_step ALL_STOCKS_LIST fetch effective_start_date end_date start_date tf
     (theme_period_returns_list, stock_level, trace) code =
     (let stock_name = stock_name_of ALL_STOCKS_LIST code;
          trace1 = trace @ [Fetch code effective_start_date end_date]
      in case fetch code effective_start_date end_date of
           Inl e \<Rightarrow> (theme_period_returns_list, stock_level, trace1)
         | Inr price_df \<Rightarrow>
             if frame_empty price_df then (theme_period_returns_list, stock_level, trace1)
             else
               (case period_return_of price_df tf of
                  Inl e \<Rightarrow> (theme_period_returns_list, stock_level, trace1 @ [Compute code])
                | Inr period_return \<Rightarrow>
                    (let appended = theme_period_returns_list @ [period_return] in
                     if tf = ''D''
                     then (case stock_df stock_name code start_date price_df of
                             Inl e \<Rightarrow> (appended, stock_level, trace1 @ [Compute code])
                           | Inr table \<Rightarrow>
                               (appended, stock_level @ [table], trace1 @ [Compute code]))
                     else (appended, stock_level, trace1 @ [Compute code]))))"

text \<open>
  Lines 110 and 111: the average of the period returns of a theme. When a member is not on
  dates, the joined table has an index that is not a DatetimeIndex (Undated); its rows
  never reach a response.
\<close>

datatype theme_series = Dated series | Undated

fun on_dates :: "returns \<Rightarrow> series list" where
  "on_dates (OnDates s) = [s]"
| "on_dates (OffDates vs) = []"

fun is_off_dates :: "returns \<Rightarrow> bool" where
  "is_off_dates (OnDates s) = False"
| "is_off_dates (OffDates vs) = True"

definition theme_entry :: "returns list \<Rightarrow> theme_series" where
  "theme_entry theme_period_returns_list =
     (if list_ex is_off_dates theme_period_returns_list then Undated
      else Dated (dropna (theme_avg_return (concat (map on_dates theme_period_returns_list)))))"

text \<open>
  The body of the loop over the themes. A theme with no period return gets no entry; an
  entry of the same name is overwritten in place.
\<close>

fun theme_step ::
  "(string \<times> string) list \<Rightarrow> fetcher \<Rightarrow> date \<Rightarrow> date \<Rightarrow> string \<Rightarrow> string \<Rightarrow>
   (string \<times> theme_series) list \<times> out_row list list \<times> event list \<Rightarrow> theme \<Rightarrow>
   (string \<times> theme_series) list \<times> out_row list list \<times> event list" where
  "theme_step ALL_STOCKS_LIST fetch effective_start_date end_date start_date tf
     (themed_returns_data, stock_level, trace) th =
     (case foldl (code_step ALL_STOCKS_LIST fetch effective_start_date end_date start_date tf)
             ([], stock_level, trace) (theme_codes th) of
        (theme_period_returns_list, stock_level1, trace1) \<Rightarrow>
          (if theme_period_returns_list \<noteq> []
           then AList.update (theme_name th) (theme_entry theme_period_returns_list)
                  themed_returns_data
           else themed_returns_data,
           stock_level1, trace1))"

definition final_themed_returns :: "date \<Rightarrow> (string \<times> series) list \<Rightarrow> out_row list" where
  "final_themed_returns start_date themed_returns_data =
     concat (map (\<lambda>(name, return_series).
                    map (\<lambda>(d, v). (d, name, round2 v)) (loc_series start_date return_series))
               themed_returns_data)"

definition process_themes ::
  "(string \<times> string) list \<Rightarrow> fetcher \<Rightarrow> date \<Rightarrow> date \<Rightarrow> string \<Rightarrow> string \<Rightarrow> theme list \<Rightarrow>
   (string \<times> theme_series) list \<times> out_row list list \<times> event list" where
  "process_themes ALL_STOCKS_LIST fetch effective_start_date end_date start_date tf ths =
     foldl (theme_step ALL_STOCKS_LIST fetch effective_start_date end_date start_date tf)
       ([], [], []) ths"

fun dated :: "string \<times> theme_series \<Rightarrow> (string \<times> series) list" where
  "dated (name, Dated s) = [(name, s)]"
| "dated (name, Undated) = []"

fun is_undated :: "string \<times> theme_series \<Rightarrow> bool" where
  "is_undated (name, Dated s) = False"
| "is_undated (name, Undated) = True"

text \<open>
  The handler of POST /api/stock-data. An exception that nothing catches ends the request
  as Unhandled: the start date does not parse; the date seven days earlier lies before
  year 1; after the loops, a theme whose table is not on dates makes the slice by the start
  date or, at the latest, \<^verbatim>\<open>index.strftime\<close> of line 124 raise; a start date that no timestamp
  can hold makes the slice raise.
\<close>

definition get_stock_data ::
  "(string \<times> string) list \<Rightarrow> fetcher \<Rightarrow> request \<Rightarrow> response \<times> event list" where
  "get_stock_data ALL_STOCKS_LIST fetch data =
     (let tf = (case timeframe data of None \<Rightarrow> ''D'' | Some t \<Rightarrow> t) in
      case (startDate data, endDate data) of
        (Some start_date_dt, Some end_date) \<Rightarrow>
          if themes data = [] then (Error400, [])
          else if \<not> valid_date start_date_dt then (Unhandled ValueError, [])
          else
            (let start_date = date_text (startDate_written data) start_date_dt;
                 effective_start_date = sub_days start_date_dt 7 in
             if fst effective_start_date < 1 then (Unhandled OverflowError, [])
             else
               (case process_themes ALL_STOCKS_LIST fetch effective_start_date end_date
                       start_date tf (themes data) of
                  (themed_returns_data, stock_level, trace) \<Rightarrow>
                    if themed_returns_data = [] then (Error500, trace)
                    else if list_ex is_undated themed_returns_data
                    then (Unhandled NotDatetimeIndex, trace)
                    else if \<not> timestamp_ok start_date_dt
                    then (Unhandled OutOfBoundsDatetime, trace)
                    else
                      (Success
                         \<lparr>themed_returns =
                            final_themed_returns start_date_dt
                              (concat (map dated themed_returns_data)),
                          stock_level_returns = concat stock_level,
                          correlation_matrix =
                            corr (loc_df start_date_dt
                                    (DataFrame (concat (map dated themed_returns_data))))\<rparr>,
                       trace)))
      | _ \<Rightarrow> (Error400, []))"

section \<open>Notions used to state the properties\<close>

definition payload_of :: "response \<Rightarrow> payload option" where
  "payload_of r = (case r of Success p \<Rightarrow> Some p | _ \<Rightarrow> None)"

definition returns_length :: "price_series \<Rightarrow> string \<Rightarrow> nat option" where
  "returns_length price_df tf =
     (case resample_and_calculate_returns price_df tf of Inl e \<Rightarrow> None | Inr r \<Rightarrow> Some (length r))"

text \<open>The codes whose reads the trace records, in the order of the calls.\<close>

fun fetched_code :: "event \<Rightarrow> string list" where
  "fetched_code (Fetch c s e) = [c]"
| "fetched_code (Compute c) = []"

fun fetch_start :: "event \<Rightarrow> date list" where
  "fetch_start (Fetch c s e) = [s]"
| "fetch_start (Compute c) = []"

text \<open>
  A code is usable when the read returns rows and the calculator returns a series.
\<close>

definition usable :: "fetcher \<Rightarrow> date \<Rightarrow> date \<Rightarrow> string \<Rightarrow> string \<Rightarrow> bool" where
  "usable fetch effective_start_date end_date tf code =
     (case fetch code effective_start_date end_date of
        Inl e \<Rightarrow> False
      | Inr price_df \<Rightarrow>
          \<not> frame_empty price_df \<and>
          (case period_return_of price_df tf of Inl e \<Rightarrow> False | Inr r \<Rightarrow> True))"

definition any_usable :: "fetcher \<Rightarrow> date \<Rightarrow> date \<Rightarrow> string \<Rightarrow> theme list \<Rightarrow> bool" where
  "any_usable fetch effective_start_date end_date tf ths =
     list_ex (\<lambda>th. list_ex (usable fetch effective_start_date end_date tf) (theme_codes th)) ths"

text \<open>
  What one code adds to the period returns of its theme, to the stock-level tables and to
  the trace.
\<close>

definition code_returns :: "fetcher \<Rightarrow> date \<Rightarrow> date \<Rightarrow> string \<Rightarrow> string \<Rightarrow> returns list" where
  "code_returns fetch effective_start_date end_date tf code =
     (case fetch code effective_start_date end_date of
        Inl e \<Rightarrow> []
      | Inr price_df \<Rightarrow>
          if frame_empty price_df then []
          else (case period_return_of price_df tf of Inl e \<Rightarrow> [] | Inr r \<Rightarrow> [r]))"

definition code_stock ::
  "(string \<times> string) list \<Rightarrow> fetcher \<Rightarrow> date \<Rightarrow> date \<Rightarrow> string \<Rightarrow> string \<Rightarrow> string \<Rightarrow>
   out_row list list" where
  "code_stock ALL_STOCKS_LIST fetch effective_start_date end_date start_date tf code =
     (case fetch code effective_start_date end_date of
        Inl e \<Rightarrow> []
      | Inr price_df \<Rightarrow>
          if frame_empty price_df \<or> tf \<noteq> ''D'' then []
          else (case period_return_of price_df tf of
                  Inl e \<Rightarrow> []
                | Inr r \<Rightarrow>
                    (case stock_df (stock_name_of ALL_STOCKS_LIST code) code start_date price_df of
                       Inl e \<Rightarrow> [] | Inr table \<Rightarrow> [table])))"

definition code_events :: "fetcher \<Rightarrow> date \<Rightarrow> date \<Rightarrow> string \<Rightarrow> event list" where
  "code_events fetch effective_start_date end_date code =
     Fetch code effective_start_date end_date #
     (case fetch code effective_start_date end_date of
        Inl e \<Rightarrow> []
      | Inr price_df \<Rightarrow> if frame_empty price_df then [] else [Compute code])"

text \<open>The period returns of a theme, and the entry the theme leaves in the per-theme table.\<close>

definition theme_returns :: "fetcher \<Rightarrow> date \<Rightarrow> date \<Rightarrow> string \<Rightarrow> theme \<Rightarrow> returns list" where
  "theme_returns fetch effective_start_date end_date tf th =
     concat (map (code_returns fetch effective_start_date end_date tf) (theme_codes th))"

definition put_theme ::
  "fetcher \<Rightarrow> date \<Rightarrow> date \<Rightarrow> string \<Rightarrow> (string \<times> theme_series) list \<Rightarrow> theme \<Rightarrow>
   (string \<times> theme_series) list" where
  "put_theme fetch effective_start_date end_date tf themed_returns_data th =
     (if theme_returns fetch effective_start_date end_date tf th \<noteq> []
      then AList.update (theme_name th)
             (theme_entry (theme_returns fetch effective_start_date end_date tf th))
             themed_returns_data
      else themed_returns_data)"

text \<open>
  The per-theme table \<^verbatim>\<open>themed_returns_data\<close> at the end of the loop over the themes: its
  entries on dates.
\<close>

definition themed_table :: "fetcher \<Rightarrow> request \<Rightarrow> (string \<times> series) list" where
  "themed_table fetch data =
     (case (startDate data, endDate data) of
        (Some start_date, Some end_date) \<Rightarrow>
          concat (map dated
            (foldl (put_theme fetch (sub_days start_date 7) end_date
                      (case timeframe data of None \<Rightarrow> ''D'' | Some t \<Rightarrow> t))
               [] (themes data)))
      | _ \<Rightarrow> [])"



text \<open>
  The pairwise-complete observations of two themes in the words of the specification: the
  pairs of values on the dates of the joint table, from the start date on, where both
  themes have a finite value.
\<close>

definition pairwise_complete ::
  "date \<Rightarrow> (string \<times> series) list \<Rightarrow> series \<Rightarrow> series \<Rightarrow> (real \<times> real) list" where
  "pairwise_complete start_date themed_returns_data sa sb =
     concat (map (\<lambda>d. case (cell sa d, cell sb d) of (Fin x, Fin y) \<Rightarrow> [(x, y)] | _ \<Rightarrow> [])
               (filter (\<lambda>d. start_date \<le> d) (union_index (map snd themed_returns_data))))"

definition coefficient ::
  "(string \<times> (string \<times> fval) list) list \<Rightarrow> string \<Rightarrow> string \<Rightarrow> fval option" where
  "coefficient m a b = (case map_of m a of None \<Rightarrow> None | Some row \<Rightarrow> map_of row b)"

text \<open>The finite values of a theme's series from the start date on.\<close>

definition finite_from :: "date \<Rightarrow> series \<Rightarrow> real list" where
  "finite_from start_date s =
     concat (map (\<lambda>(d, v). case v of Fin x \<Rightarrow> [x] | _ \<Rightarrow> []) (loc_series start_date s))"

fun all_equal :: "real list \<Rightarrow> bool" where
  "all_equal [] = True"
| "all_equal (x # xs) = list_all (\<lambda>y. y = x) xs"

text \<open>
  A triple that names a day of some year: month 1 to 12, day 1 to the length of the month.
\<close>

fun on_calendar :: "date \<Rightarrow> bool" where
  "on_calendar (y, m, d) = (1 \<le> m \<and> m \<le> 12 \<and> 1 \<le> d \<and> d \<le> days_in_month y m)"

section \<open>Example data\<close>

text \<open>
  One theme T1 with the single code X, read over three days with the closes 100, 110, 99;
  every other code fails to load.
\<close>

definition closes_example :: price_series where
  "closes_example = [((2024, 1, 8), 100), ((2024, 1, 9), 110), ((2024, 1, 10), 99)]"

definition fetch_example :: fetcher where
  "fetch_example code s e =
     (if code = ''X'' then Inr (Timed closes_example) else Inl FetchFailed)"

definition request_example :: request where
  "request_example =
     \<lparr>themes = [\<lparr>theme_name = ''T1'', theme_codes = [''X'']\<rparr>],
      startDate = Some (2024, 1, 8), startDate_written = (Padded, Padded),
      endDate = Some (2024, 1, 10), timeframe = Some ''D''\<rparr>"


definition fetch_constant :: fetcher where
  "fetch_constant code s e =
     (if code = ''X''
      then Inr (Timed [((2024, 1, 8), 100), ((2024, 1, 9), 100), ((2024, 1, 10), 100)])
      else Inl FetchFailed)"

text \<open>The code X with rows from 2024-01-01 to 2024-01-10.\<close>

definition fetch_span :: fetcher where
  "fetch_span code s e =
     (if code = ''X''
      then Inr (Timed [((2024, 1, 1), 4000), ((2024, 1, 2), 4000), ((2024, 1, 3), 4000),
                       ((2024, 1, 4), 4000), ((2024, 1, 5), 4000), ((2024, 1, 8), 4200),
                       ((2024, 1, 9), 4410), ((2024, 1, 10), 3969)])
      else Inl FetchFailed)"

text \<open>
  Two themes: T1 with the code X and T2 with the code Y, which has no row on 2024-01-09.
\<close>

definition fetch_two :: fetcher where
  "fetch_two code s e =
     (if code = ''X''
      then Inr (Timed [((2024, 1, 5), 100), ((2024, 1, 8), 100), ((2024, 1, 9), 150),
                       ((2024, 1, 10), 75)])
      else if code = ''Y''
      then Inr (Timed [((2024, 1, 5), 50), ((2024, 1, 8), 100), ((2024, 1, 10), 150)])
      else Inl FetchFailed)"

definition request_two :: request where
  "request_two =
     \<lparr>themes = [\<lparr>theme_name = ''T1'', theme_codes = [''X'']\<rparr>,
                 \<lparr>theme_name = ''T2'', theme_codes = [''Y'']\<rparr>],
      startDate = Some (2024, 1, 8), startDate_written = (Padded, Padded),
      endDate = Some (2024, 1, 10), timeframe = Some ''D''\<rparr>"



section \<open>Properties of the binary64 rounding\<close>

lemma fl_not_NaN [simp]: "fl x \<noteq> NaN"
  by (simp add: fl_def Let_def)

lemma fl_zero [simp]: "fl 0 = Fin 0"
  by (simp add: fl_def)

lemma rint_of_int [simp]: "rint (of_int n) = of_int n"
  by (simp add: rint_def)

lemma binade_normal:
  assumes "2 powr of_int e \<le> \<bar>x\<bar>" "\<bar>x\<bar> < 2 powr of_int (e + 1)" "- 1022 \<le> e"
  shows "binade x = e"
proof -
  have "0 < \<bar>x\<bar>" using assms(1) powr_gt_zero [of 2 "of_int e"] by linarith
  then have "\<lfloor>log 2 \<bar>x\<bar>\<rfloor> = e"
    using assms(1,2) by (simp add: floor_log_eq_powr_iff)
  then show ?thesis using assms(3) by (simp add: binade_def)
qed

lemma two_powr_int_diff:
  "(2::real) powr of_int (int n - int k) = 2 ^ n / 2 ^ k"
proof -
  have "(2::real) powr of_int (int n - int k) = 2 powr real n / 2 powr real k"
    by (simp add: powr_diff)
  then show ?thesis by (simp add: powr_realpow)
qed

text \<open>
  A number whose magnitude, scaled by \<open>2 ^ k\<close>, lies between \<open>2 ^ 52\<close> and \<open>2 ^ 53\<close> is
  rounded to the nearest multiple of \<open>2 ^ - k\<close>.
\<close>

lemma fl_eqI:
  fixes k :: nat and m :: int
  assumes "k \<le> 1074" "2 ^ 52 \<le> \<bar>x\<bar> * 2 ^ k" "\<bar>x\<bar> * 2 ^ k < 2 ^ 53"
    and "rint (x * 2 ^ k) = of_int m" and "\<bar>m\<bar> \<le> 2 ^ 53"
  shows "fl x = Fin (of_int m / 2 ^ k)"
proof -
  let ?c = "(2::real) ^ k"
  have c: "0 < ?c" by simp
  have p52: "(2::real) powr of_int (52 - int k) = 2 ^ 52 / ?c"
    using two_powr_int_diff [of 52 k] by simp
  have p53: "(2::real) powr of_int (52 - int k + 1) = 2 ^ 53 / ?c"
    using two_powr_int_diff [of 53 k] by (simp add: algebra_simps)
  have a: "2 powr of_int (52 - int k) \<le> \<bar>x\<bar>"
    unfolding p52 using assms(2) c by (simp add: pos_divide_le_eq)
  have b: "\<bar>x\<bar> < 2 powr of_int (52 - int k + 1)"
    unfolding p53 using assms(3) c by (simp add: pos_less_divide_eq)
  have e: "binade x = 52 - int k"
    by (rule binade_normal [OF a b]) (use assms(1) in simp)
  have x0: "x \<noteq> 0" using assms(2) by auto
  have q: "(2::real) powr of_int (binade x - 52) = 1 / ?c"
    using two_powr_int_diff [of 0 k] by (simp add: e)
  have y: "rint (x / (1 / ?c)) * (1 / ?c) = of_int m / ?c"
    using assms(4) by simp
  have m53: "\<bar>real_of_int m\<bar> \<le> 2 ^ 53"
  proof -
    have "real_of_int \<bar>m\<bar> \<le> real_of_int (2 ^ 53)" using assms(5) by (simp only: of_int_le_iff)
    then show ?thesis by simp
  qed
  have "\<bar>real_of_int m\<bar> / ?c \<le> 2 ^ 53 / 1"
    by (rule frac_le) (use m53 in simp_all)
  moreover have "(2::real) ^ 53 < 2 ^ 1024" by (rule power_strict_increasing) simp_all
  ultimately have n: "\<not> 2 ^ 1024 \<le> \<bar>real_of_int m / ?c\<bar>" by (simp add: abs_divide)
  show ?thesis
    unfolding fl_def Let_def q y using x0 n by simp
qed

text \<open>The roundings that the examples need.\<close>

lemma fl_value_1: "fl (- 5000) = Fin (- 5000)"
proof -
  have "fl (- 5000) = Fin (of_int (- 5497558138880000) / 2 ^ 40)"
    by (rule fl_eqI) (simp_all add: rint_def)
  then show ?thesis by simp
qed

lemma fl_value_2: "fl (- (140737488355327975 / 140737488355328)) = Fin (- (4398046511103999 / 4398046511104))"
proof -
  have "fl (- (140737488355327975 / 140737488355328)) = Fin (of_int (- 8796093022207998) / 2 ^ 43)"
    by (rule fl_eqI) (simp_all add: rint_def)
  then show ?thesis by simp
qed

lemma fl_value_3: "fl (- 50) = Fin (- 50)"
proof -
  have "fl (- 50) = Fin (of_int (- 7036874417766400) / 2 ^ 47)"
    by (rule fl_eqI) (simp_all add: rint_def)
  then show ?thesis by simp
qed

lemma fl_value_4: "fl (- 10) = Fin (- 10)"
proof -
  have "fl (- 10) = Fin (of_int (- 5629499534213120) / 2 ^ 49)"
    by (rule fl_eqI) (simp_all add: rint_def)
  then show ?thesis by simp
qed

lemma fl_value_5: "fl (- (22517998136852475 / 2251799813685248)) = Fin (- (5629499534213119 / 562949953421312))"
proof -
  have "fl (- (22517998136852475 / 2251799813685248)) = Fin (of_int (- 5629499534213119) / 2 ^ 49)"
    by (rule fl_eqI) (simp_all add: rint_def)
  then show ?thesis by simp
qed

lemma fl_value_6: "fl (- (1 / 2)) = Fin (- (1 / 2))"
proof -
  have "fl (- (1 / 2)) = Fin (of_int (- 4503599627370496) / 2 ^ 53)"
    by (rule fl_eqI) (simp_all add: rint_def)
  then show ?thesis by simp
qed

lemma fl_value_7: "fl (- (900719925474099 / 9007199254740992)) = Fin (- (900719925474099 / 9007199254740992))"
proof -
  have "fl (- (900719925474099 / 9007199254740992)) = Fin (of_int (- 7205759403792792) / 2 ^ 56)"
    by (rule fl_eqI) (simp_all add: rint_def)
  then show ?thesis by simp
qed

lemma fl_value_8: "fl (16888498602639 / 4503599627370496) = Fin (16888498602639 / 4503599627370496)"
proof -
  have "fl (16888498602639 / 4503599627370496) = Fin (of_int (8646911284551168) / 2 ^ 61)"
    by (rule fl_eqI) (simp_all add: rint_def)
  then show ?thesis by simp
qed

lemma fl_value_9: "fl (225179981368525 / 4503599627370496) = Fin (225179981368525 / 4503599627370496)"
proof -
  have "fl (225179981368525 / 4503599627370496) = Fin (of_int (7205759403792800) / 2 ^ 57)"
    by (rule fl_eqI) (simp_all add: rint_def)
  then show ?thesis by simp
qed

lemma fl_value_10: "fl (225179981368525 / 2251799813685248) = Fin (225179981368525 / 2251799813685248)"
proof -
  have "fl (225179981368525 / 2251799813685248) = Fin (of_int (7205759403792800) / 2 ^ 56)"
    by (rule fl_eqI) (simp_all add: rint_def)
  then show ?thesis by simp
qed

lemma fl_value_11: "fl (37 / 100) = Fin (3332663724254167 / 9007199254740992)"
proof -
  have "fl (37 / 100) = Fin (of_int (6665327448508334) / 2 ^ 54)"
    by (rule fl_eqI) (simp_all add: rint_def)
  then show ?thesis by simp
qed

lemma fl_value_12: "fl (422212465065975 / 1125899906842624) = Fin (422212465065975 / 1125899906842624)"
proof -
  have "fl (422212465065975 / 1125899906842624) = Fin (of_int (6755399441055600) / 2 ^ 54)"
    by (rule fl_eqI) (simp_all add: rint_def)
  then show ?thesis by simp
qed

lemma fl_value_13: "fl (1 / 2) = Fin (1 / 2)"
proof -
  have "fl (1 / 2) = Fin (of_int (4503599627370496) / 2 ^ 53)"
    by (rule fl_eqI) (simp_all add: rint_def)
  then show ?thesis by simp
qed

lemma fl_value_14: "fl (9 / 10) = Fin (8106479329266893 / 9007199254740992)"
proof -
  have "fl (9 / 10) = Fin (of_int (8106479329266893) / 2 ^ 53)"
    by (rule fl_eqI) (simp_all add: rint_def)
  then show ?thesis by simp
qed

lemma fl_value_15: "fl (1) = Fin (1)"
proof -
  have "fl (1) = Fin (of_int (4503599627370496) / 2 ^ 52)"
    by (rule fl_eqI) (simp_all add: rint_def)
  then show ?thesis by simp
qed

lemma fl_value_16: "fl (803 / 800) = Fin (4520488125973135 / 4503599627370496)"
proof -
  have "fl (803 / 800) = Fin (of_int (4520488125973135) / 2 ^ 52)"
    by (rule fl_eqI) (simp_all add: rint_def)
  then show ?thesis by simp
qed

lemma fl_value_17: "fl (21 / 20) = Fin (4728779608739021 / 4503599627370496)"
proof -
  have "fl (21 / 20) = Fin (of_int (4728779608739021) / 2 ^ 52)"
    by (rule fl_eqI) (simp_all add: rint_def)
  then show ?thesis by simp
qed

lemma fl_value_18: "fl (11 / 10) = Fin (2476979795053773 / 2251799813685248)"
proof -
  have "fl (11 / 10) = Fin (of_int (4953959590107546) / 2 ^ 52)"
    by (rule fl_eqI) (simp_all add: rint_def)
  then show ?thesis by simp
qed

lemma fl_value_19: "fl (3 / 2) = Fin (3 / 2)"
proof -
  have "fl (3 / 2) = Fin (of_int (6755399441055744) / 2 ^ 52)"
    by (rule fl_eqI) (simp_all add: rint_def)
  then show ?thesis by simp
qed

lemma fl_value_20: "fl (2) = Fin (2)"
proof -
  have "fl (2) = Fin (of_int (4503599627370496) / 2 ^ 51)"
    by (rule fl_eqI) (simp_all add: rint_def)
  then show ?thesis by simp
qed

lemma fl_value_21: "fl (5) = Fin (5)"
proof -
  have "fl (5) = Fin (of_int (5629499534213120) / 2 ^ 50)"
    by (rule fl_eqI) (simp_all add: rint_def)
  then show ?thesis by simp
qed

lemma fl_value_22: "fl (5629499534213125 / 1125899906842624) = Fin (5629499534213125 / 1125899906842624)"
proof -
  have "fl (5629499534213125 / 1125899906842624) = Fin (of_int (5629499534213125) / 2 ^ 50)"
    by (rule fl_eqI) (simp_all add: rint_def)
  then show ?thesis by simp
qed

lemma fl_value_23: "fl (10) = Fin (10)"
proof -
  have "fl (10) = Fin (of_int (5629499534213120) / 2 ^ 49)"
    by (rule fl_eqI) (simp_all add: rint_def)
  then show ?thesis by simp
qed

lemma fl_value_24: "fl (5629499534213125 / 562949953421312) = Fin (5629499534213125 / 562949953421312)"
proof -
  have "fl (5629499534213125 / 562949953421312) = Fin (of_int (5629499534213125) / 2 ^ 49)"
    by (rule fl_eqI) (simp_all add: rint_def)
  then show ?thesis by simp
qed

lemma fl_value_25: "fl (10555311626649375 / 281474976710656) = Fin (329853488332793 / 8796093022208)"
proof -
  have "fl (10555311626649375 / 281474976710656) = Fin (of_int (5277655813324688) / 2 ^ 47)"
    by (rule fl_eqI) (simp_all add: rint_def)
  then show ?thesis by simp
qed

lemma fl_value_26: "fl (50) = Fin (50)"
proof -
  have "fl (50) = Fin (of_int (7036874417766400) / 2 ^ 47)"
    by (rule fl_eqI) (simp_all add: rint_def)
  then show ?thesis by simp
qed

lemma fl_value_27: "fl (100) = Fin (100)"
proof -
  have "fl (100) = Fin (of_int (7036874417766400) / 2 ^ 46)"
    by (rule fl_eqI) (simp_all add: rint_def)
  then show ?thesis by simp
qed

lemma fl_value_28: "fl (140737488355328125 / 281474976710656) = Fin (1099511627776001 / 2199023255552)"
proof -
  have "fl (140737488355328125 / 281474976710656) = Fin (of_int (8796093022208008) / 2 ^ 44)"
    by (rule fl_eqI) (simp_all add: rint_def)
  then show ?thesis by simp
qed

lemma fl_value_29: "fl (140737488355328125 / 140737488355328) = Fin (1099511627776001 / 1099511627776)"
proof -
  have "fl (140737488355328125 / 140737488355328) = Fin (of_int (8796093022208008) / 2 ^ 43)"
    by (rule fl_eqI) (simp_all add: rint_def)
  then show ?thesis by simp
qed

lemma fl_value_30: "fl (5000) = Fin (5000)"
proof -
  have "fl (5000) = Fin (of_int (5497558138880000) / 2 ^ 40)"
    by (rule fl_eqI) (simp_all add: rint_def)
  then show ?thesis by simp
qed

lemma fl_value_31: "fl (10000) = Fin (10000)"
proof -
  have "fl (10000) = Fin (of_int (5497558138880000) / 2 ^ 39)"
    by (rule fl_eqI) (simp_all add: rint_def)
  then show ?thesis by simp
qed

lemmas fl_values =
  fl_value_1 fl_value_2 fl_value_3 fl_value_4 fl_value_5 fl_value_6
  fl_value_7 fl_value_8 fl_value_9 fl_value_10 fl_value_11 fl_value_12
  fl_value_13 fl_value_14 fl_value_15 fl_value_16 fl_value_17 fl_value_18
  fl_value_19 fl_value_20 fl_value_21 fl_value_22 fl_value_23 fl_value_24
  fl_value_25 fl_value_26 fl_value_27 fl_value_28 fl_value_29 fl_value_30
  fl_value_31

section \<open>Properties of the return calculator\<close>

lemmas eval_defs =
  get_stock_data_def process_themes_def sub_days_def eval_nat_numeral days_in_month_def
  is_leap_def resample_and_calculate_returns_def times100_def pct_change_def close_col_def
  stock_name_of_def theme_entry_def theme_avg_return_def mean_axis1_def concat_axis1_def
  union_index_def cell_def row_mean_def dropna_def final_themed_returns_def loc_series_def
  rint_def payload_of_def str_ge_def four_digits_def two_digits_def digit_def

lemma ffill_fst: "map fst (ffill p s) = map fst s"
  by (induction p s rule: ffill.induct) auto

lemma div_shift_fst: "map fst (div_shift p s) = map fst s"
  by (induction p s rule: div_shift.induct) auto

lemma pct_change_fst: "map fst (pct_change s) = map fst s"
  by (simp add: pct_change_def div_shift_fst ffill_fst)

lemma times100_fst: "map fst (times100 s) = map fst s"
  by (simp add: times100_def split_def)

lemma daily_returns_fst:
  "map fst (times100 (pct_change (close_col price_df))) = map fst price_df"
  by (simp add: times100_fst pct_change_fst close_col_def split_def)

lemma pct_change_first: "s \<noteq> [] \<Longrightarrow> snd (hd (times100 (pct_change s))) = NaN"
  by (cases s; cases "snd (hd s)") (auto simp: pct_change_def times100_def)

text \<open>
  C1. For the daily closes 100, 110, 99 the return calculator yields NaN for the first day
  and, for the other two, the binary64 results of (close[t] / close[t-1] - 1) * 100, which
  are 10.000000000000009 and -9.999999999999998: they differ from the lag-1 percent changes
  (110 - 100) / 100 * 100 and (99 - 110) / 110 * 100 by less than \<open>10 ^ - 14\<close>. The handler
  drops the NaN and rounds to two decimals, so the theme returns and the stock-level returns
  that it presents are exactly 10.00 and -10.00.
\<close>

theorem C1_daily_returns_example:
  "resample_and_calculate_returns closes_example ''D'' =
     Inr [((2024, 1, 8), NaN),
          ((2024, 1, 9), Fin (5629499534213125 / 562949953421312)),
          ((2024, 1, 10), Fin (- (5629499534213119 / 562949953421312)))] \<and>
   \<bar>5629499534213125 / 562949953421312 - (110 - 100) / 100 * 100\<bar> < (1 / 10 ^ 14 :: real) \<and>
   \<bar>- (5629499534213119 / 562949953421312) - (99 - 110) / 110 * 100\<bar> < (1 / 10 ^ 14 :: real) \<and>
   map round2 [Fin (5629499534213125 / 562949953421312),
               Fin (- (5629499534213119 / 562949953421312))] = [Fin 10, Fin (- 10)] \<and>
   map_option themed_returns (payload_of (fst (get_stock_data [] fetch_example request_example))) =
     Some [((2024, 1, 9), ''T1'', Fin 10), ((2024, 1, 10), ''T1'', Fin (- 10))] \<and>
   map_option stock_level_returns
       (payload_of (fst (get_stock_data [] fetch_example request_example))) =
     Some [((2024, 1, 9), ''X (X)'', Fin 10), ((2024, 1, 10), ''X (X)'', Fin (- 10))]"
  by (simp add: eval_defs fl_values timestamp_ok_def closes_example_def fetch_example_def
      request_example_def)

text \<open>
  The rounding to two decimals of a value near a tie: the closes 800 and 803 give the
  return 0.37499999999999645, which is presented as 0.37.
\<close>

lemma round2_near_tie:
  "map (\<lambda>(d, v). round2 v) (dropna (times100 (pct_change [((), Some 800), ((), Some 803)]))) =
     [Fin (3332663724254167 / 9007199254740992)] \<and>
   \<bar>3332663724254167 / 9007199254740992 - 37 / 100\<bar> < (1 / 10 ^ 16 :: real)"
  by (simp add: times100_def pct_change_def dropna_def rint_def fl_values)

lemma fscale_eq_NaN [simp]: "fscale v c = NaN \<longleftrightarrow> v = NaN"
  by (cases v) auto

lemma fsub_eq_NaN [simp]: "fsub v c = NaN \<longleftrightarrow> v = NaN"
  by (cases v) auto

lemma ffill_close_col: "ffill p (close_col s) = close_col s"
  by (induction s arbitrary: p) (auto simp: close_col_def)

lemma dropna_div_shift_nonzero:
  "\<forall>c \<in> set (map snd s). c \<noteq> 0 \<Longrightarrow> p \<noteq> 0 \<Longrightarrow>
   dropna (times100 (div_shift (Some p) (close_col s))) =
     times100 (div_shift (Some p) (close_col s))"
  by (induction s arbitrary: p) (auto simp: close_col_def dropna_def times100_def)

lemma daily_dropna_length:
  "list_all (\<lambda>c. c \<noteq> 0) (map snd price_df) \<Longrightarrow>
   length (dropna (times100 (pct_change (close_col price_df)))) = length price_df - 1"
proof (cases price_df)
  case Nil
  then show ?thesis by (simp add: dropna_def times100_def pct_change_def close_col_def)
next
  case (Cons x xs)
  obtain d c where x: "x = (d, c)" by (cases x)
  assume "list_all (\<lambda>c. c \<noteq> 0) (map snd price_df)"
  with Cons x have nz: "\<forall>c \<in> set (map snd xs). c \<noteq> 0" and c: "c \<noteq> 0"
    by (auto simp: list_all_iff)
  have "pct_change (close_col price_df) = (d, NaN) # div_shift (Some c) (close_col xs)"
    using Cons x ffill_close_col [of "Some c" xs]
    by (simp add: pct_change_def close_col_def)
  then have "dropna (times100 (pct_change (close_col price_df)))
      = dropna (times100 (div_shift (Some c) (close_col xs)))"
    by (simp add: dropna_def times100_def)
  also have "\<dots> = times100 (div_shift (Some c) (close_col xs))"
    by (rule dropna_div_shift_nonzero [OF nz c])
  finally show ?thesis
    using Cons by (simp add: times100_def close_col_def) (metis length_map div_shift_fst)
qed

text \<open>
  C2, as the specification states it (a daily series of length L yields a return series of
  length L - 1), fails: the calculator keeps the first day with the value NaN, so the three
  closes of the example yield three rows.
\<close>

theorem C2_counterexample:
  "returns_length closes_example ''D'' \<noteq> Some (length closes_example - 1)"
  by (simp add: returns_length_def closes_example_def resample_and_calculate_returns_def
      times100_def pct_change_def close_col_def fl_values)

text \<open>
  C2, amended. For a non-empty daily price series of length L the calculator returns a
  series of length L on the same dates whose first value is NaN. The undefined first day
  is removed only by the dropna of the handler; when no close is zero, L - 1 values are
  left.
\<close>

theorem C2_daily_returns_length:
  assumes "price_df \<noteq> []"
  shows "\<exists>r. resample_and_calculate_returns price_df ''D'' = Inr r \<and>
           length r = length price_df \<and> map fst r = map fst price_df \<and>
           snd (hd r) = NaN \<and>
           (list_all (\<lambda>c. c \<noteq> 0) (map snd price_df) \<longrightarrow>
              length (dropna r) = length price_df - 1)"
proof -
  let ?r = "times100 (pct_change (close_col price_df))"
  have r: "resample_and_calculate_returns price_df ''D'' = Inr ?r"
    by (simp add: resample_and_calculate_returns_def)
  have f: "map fst ?r = map fst price_df" by (rule daily_returns_fst)
  then have l: "length ?r = length price_df" by (metis length_map)
  have "close_col price_df \<noteq> []" using assms by (simp add: close_col_def)
  then have n: "snd (hd ?r) = NaN" by (rule pct_change_first)
  show ?thesis using r f l n daily_dropna_length by blast
qed

theorem C2_daily_returns_length_witness:
  "closes_example \<noteq> [] \<and> list_all (\<lambda>c. c \<noteq> 0) (map snd closes_example) \<and>
   returns_length closes_example ''D'' = Some 3 \<and>
   map_sum id (\<lambda>r. length (dropna r))
     (resample_and_calculate_returns closes_example ''D'') = Inr 2"
proof -
  have ne: "closes_example \<noteq> []" by (simp add: closes_example_def)
  have nz: "list_all (\<lambda>c. c \<noteq> 0) (map snd closes_example)"
    by (simp add: closes_example_def)
  from C2_daily_returns_length [OF ne] nz obtain r where
    "resample_and_calculate_returns closes_example ''D'' = Inr r"
    "length r = length closes_example" "length (dropna r) = length closes_example - 1"
    by blast
  then show ?thesis using ne nz by (simp add: returns_length_def closes_example_def)
qed

lemma resample_single:
  "length (resample_last r [x]) = 1"
  by (cases r) (simp_all add: resample_last_def)

lemma pct_change_short:
  "length s \<le> 1 \<Longrightarrow> dropna (times100 (pct_change s)) = []"
  by (cases s; cases "snd (hd s)") (auto simp: pct_change_def times100_def dropna_def)

text \<open>
  C7, as the specification states it (an empty series for every timeframe, no error),
  fails twice: a price series of one day yields a series of one row, with the value NaN,
  and a timeframe other than D, W and M makes the calculator raise.
\<close>

theorem C7_counterexample:
  "resample_and_calculate_returns [((2024, 1, 8), 100)] ''D'' = Inr [((2024, 1, 8), NaN)] \<and>
   [((2024, 1, 8), NaN)] \<noteq> ([] :: series) \<and>
   resample_and_calculate_returns [] ''Q'' = Inl ResampleRuleError"
  by (simp add: resample_and_calculate_returns_def times100_def pct_change_def close_col_def
      resample_period_def)

text \<open>
  C7, amended. For a price series with fewer than two observations and a timeframe among
  D, W and M, the calculator raises no error and returns a series with as many rows as the
  input and no defined value: every row is NaN, so the dropna of the handler leaves the
  empty series.
\<close>

theorem C7_short_series:
  assumes "length price_df \<le> 1" and "tf = ''D'' \<or> tf = ''W'' \<or> tf = ''M''"
  shows "\<exists>r. resample_and_calculate_returns price_df tf = Inr r \<and>
           length r = length price_df \<and> dropna r = []"
proof -
  consider "price_df = []" | x where "price_df = [x]"
    using assms(1) by (cases price_df) auto
  then show ?thesis
  proof cases
    case 1
    then show ?thesis using assms(2)
      by (auto simp: resample_and_calculate_returns_def resample_period_def times100_def
          pct_change_def close_col_def resample_last_def dropna_def)
  next
    case 2
    have a: "\<And>s. length s = 1 \<Longrightarrow> length (times100 (pct_change s)) = 1 \<and> dropna (times100 (pct_change s)) = []"
      using pct_change_short by (metis length_map times100_fst pct_change_fst le_refl)
    have d: "length (close_col price_df) = 1" using 2 by (simp add: close_col_def)
    have w: "\<And>r. length (resample_last r price_df) = 1" using 2 resample_single by simp
    show ?thesis using assms(2) a [OF d] a [OF w] 2
      by (auto simp: resample_and_calculate_returns_def resample_period_def)
  qed
qed

theorem C7_short_series_witness:
  "length ([((2024, 1, 8), 100)] :: price_series) \<le> 1 \<and>
   resample_and_calculate_returns [((2024, 1, 8), 100)] ''W'' = Inr [((2024, 1, 12), NaN)] \<and>
   dropna ([((2024, 1, 12), NaN)] :: series) = []"
proof -
  have "\<exists>r. resample_and_calculate_returns [((2024, 1, 8), 100)] ''W'' = Inr r \<and>
           length r = length ([((2024, 1, 8), 100)] :: price_series) \<and> dropna r = []"
    by (rule C7_short_series) simp_all
  then show ?thesis
    by (simp add: resample_and_calculate_returns_def times100_def pct_change_def
        resample_period_def resample_last_def add_days_def weekday_def days_before_year_def
        days_before_month_def days_in_month_def is_leap_def eval_nat_numeral last_opt_def
        upto.simps dropna_def)
qed

section \<open>Properties of the request handler\<close>

text \<open>
  C9. A request with an empty list of themes, or without a start date, or without an end
  date, is answered with the error response of status 400, and the trace is empty: no
  price was read and no return was computed.
\<close>

theorem C9_missing_fields:
  assumes "themes data = [] \<or> startDate data = None \<or> endDate data = None"
  shows "get_stock_data ALL_STOCKS_LIST fetch data = (Error400, [])"
  using assms by (auto simp: get_stock_data_def split: option.splits)

theorem C9_missing_fields_witness:
  "themes (request_example\<lparr>startDate := None\<rparr>) \<noteq> [] \<and> 
   startDate (request_example\<lparr>startDate := None\<rparr>) = None \<and>
   get_stock_data [] fetch_example (request_example\<lparr>startDate := None\<rparr>) = (Error400, [])"
  using C9_missing_fields [of "request_example\<lparr>startDate := None\<rparr>" "[]" fetch_example]
  by (simp add: request_example_def)

lemma code_step_eq:
  "code_step S fetch eff en st tf (acc, sl, tr) c =
     (acc @ code_returns fetch eff en tf c,
      sl @ code_stock S fetch eff en st tf c,
      tr @ code_events fetch eff en c)"
  by (auto simp: code_returns_def code_stock_def code_events_def Let_def split: sum.splits)

lemma foldl_code_step:
  "foldl (code_step S fetch eff en st tf) (acc, sl, tr) cs =
     (acc @ concat (map (code_returns fetch eff en tf) cs),
      sl @ concat (map (code_stock S fetch eff en st tf) cs),
      tr @ concat (map (code_events fetch eff en) cs))"
  by (induction cs arbitrary: acc sl tr) (simp_all add: code_step_eq del: code_step.simps)

lemma theme_step_eq:
  "theme_step S fetch eff en st tf (td, sl, tr) th =
     (put_theme fetch eff en tf td th,
      sl @ concat (map (code_stock S fetch eff en st tf) (theme_codes th)),
      tr @ concat (map (code_events fetch eff en) (theme_codes th)))"
  by (simp add: foldl_code_step put_theme_def theme_returns_def)

lemma foldl_theme_step:
  "foldl (theme_step S fetch eff en st tf) (td, sl, tr) ths =
     (foldl (put_theme fetch eff en tf) td ths,
      sl @ concat (map (\<lambda>th. concat (map (code_stock S fetch eff en st tf) (theme_codes th))) ths),
      tr @ concat (map (\<lambda>th. concat (map (code_events fetch eff en) (theme_codes th))) ths))"
  by (induction ths arbitrary: td sl tr) (simp_all add: theme_step_eq del: theme_step.simps)

lemma process_themes_eq:
  "process_themes S fetch eff en st tf ths =
     (foldl (put_theme fetch eff en tf) [] ths,
      concat (map (\<lambda>th. concat (map (code_stock S fetch eff en st tf) (theme_codes th))) ths),
      concat (map (\<lambda>th. concat (map (code_events fetch eff en) (theme_codes th))) ths))"
  by (simp add: process_themes_def foldl_theme_step)

lemma update_not_Nil: "AList.update k v al \<noteq> []"
  by (cases al) auto

lemma put_theme_keeps: "td \<noteq> [] \<Longrightarrow> put_theme fetch eff en tf td th \<noteq> []"
  by (simp add: put_theme_def update_not_Nil)

lemma foldl_put_theme_keeps: "td \<noteq> [] \<Longrightarrow> foldl (put_theme fetch eff en tf) td ths \<noteq> []"
  by (induction ths arbitrary: td) (simp_all add: put_theme_keeps)

lemma code_returns_Nil: "code_returns fetch eff en tf c = [] \<longleftrightarrow> \<not> usable fetch eff en tf c"
  by (auto simp: code_returns_def usable_def split: sum.splits)

lemma theme_returns_Nil:
  "theme_returns fetch eff en tf th = [] \<longleftrightarrow> \<not> list_ex (usable fetch eff en tf) (theme_codes th)"
  by (simp add: theme_returns_def code_returns_Nil list_ex_iff)

lemma foldl_put_theme_Nil:
  "foldl (put_theme fetch eff en tf) [] ths = [] \<longleftrightarrow> \<not> any_usable fetch eff en tf ths"
proof (induction ths)
  case Nil
  show ?case by (simp add: any_usable_def)
next
  case (Cons th ths)
  show ?case
  proof (cases "theme_returns fetch eff en tf th = []")
    case True
    then have "put_theme fetch eff en tf [] th = []" by (simp add: put_theme_def)
    with Cons True show ?thesis by (simp add: any_usable_def theme_returns_Nil)
  next
    case False
    then have "put_theme fetch eff en tf [] th \<noteq> []" by (simp add: put_theme_def update_not_Nil)
    then have "foldl (put_theme fetch eff en tf) [] (th # ths) \<noteq> []"
      by (simp add: foldl_put_theme_keeps)
    with False show ?thesis by (simp add: any_usable_def theme_returns_Nil)
  qed
qed

lemma get_stock_data_valid:
  assumes "themes data \<noteq> []" "startDate data = Some st" "endDate data = Some en"
    "valid_date st" "1 \<le> fst (sub_days st 7)"
  shows "get_stock_data S fetch data =
     (case process_themes S fetch (sub_days st 7) en (date_text (startDate_written data) st)
             (case timeframe data of None \<Rightarrow> ''D'' | Some t \<Rightarrow> t) (themes data) of
        (td, sl, tr) \<Rightarrow>
          if td = [] then (Error500, tr)
          else if list_ex is_undated td then (Unhandled NotDatetimeIndex, tr)
          else if \<not> timestamp_ok st then (Unhandled OutOfBoundsDatetime, tr)
          else (Success \<lparr>themed_returns = final_themed_returns st (concat (map dated td)),
                          stock_level_returns = concat sl,
                          correlation_matrix =
                            corr (loc_df st (DataFrame (concat (map dated td))))\<rparr>, tr))"
  using assms by (simp add: get_stock_data_def Let_def)

lemmas corr_defs = corr_def loc_df_def DataFrame_def loc_col_def pearson_def ssqdm_def covsum_def mean_def

text \<open>
  The stock-level rows are trimmed by comparing texts: for the start date written 2024-1-8
  every row of the example is dropped from the stock-level returns, and none from the theme
  returns.
\<close>

lemma unpadded_start_date:
  "date_text (Bare, Bare) (2024, 1, 8) = ''2024-1-8'' \<and>
   map_option stock_level_returns
     (payload_of (fst (get_stock_data [] fetch_example
        (request_example\<lparr>startDate_written := (Bare, Bare)\<rparr>)))) = Some [] \<and>
   map_option themed_returns
     (payload_of (fst (get_stock_data [] fetch_example
        (request_example\<lparr>startDate_written := (Bare, Bare)\<rparr>)))) =
     Some [((2024, 1, 9), ''T1'', Fin 10), ((2024, 1, 10), ''T1'', Fin (- 10))]"
  by (simp add: eval_defs fl_values timestamp_ok_def closes_example_def fetch_example_def
      request_example_def)

text \<open>
  A start date that no timestamp can hold: the loops run, and the slice of the joint table
  raises.
\<close>

lemma start_date_out_of_bounds:
  "get_stock_data [] fetch_example (request_example\<lparr>startDate := Some (1600, 1, 8)\<rparr>) =
     (Unhandled OutOfBoundsDatetime, [Fetch ''X'' (1600, 1, 1) (2024, 1, 10), Compute ''X''])"
  by (simp add: eval_defs fl_values timestamp_ok_def closes_example_def fetch_example_def
      request_example_def)




lemma bad_timeframe_raises:
  "tf \<noteq> ''D'' \<Longrightarrow> tf \<noteq> ''W'' \<Longrightarrow> tf \<noteq> ''M'' \<Longrightarrow>
   resample_and_calculate_returns price_df tf = Inl ResampleRuleError"
  by (simp add: resample_and_calculate_returns_def resample_period_def)

lemma bad_timeframe_frame:
  "tf \<noteq> ''D'' \<Longrightarrow> tf \<noteq> ''W'' \<Longrightarrow> tf \<noteq> ''M'' \<Longrightarrow>
   period_return_of price_df tf = Inl ResampleRuleError"
  by (cases price_df) (simp_all add: bad_timeframe_raises resample_period_def)

lemma fetched_code_events:
  "concat (map fetched_code (code_events fetch eff en c)) = [c]"
  by (auto simp: code_events_def split: sum.splits)

lemma fetched_codes_theme:
  "concat (map fetched_code (concat (map (code_events fetch eff en) cs))) = cs"
  by (induction cs) (simp_all add: fetched_code_events)

lemma fetched_codes_themes:
  "concat (map fetched_code
     (concat (map (\<lambda>th. concat (map (code_events fetch eff en) (theme_codes th))) ths))) =
   concat (map theme_codes ths)"
  by (induction ths) (simp_all add: fetched_codes_theme)

lemma trace_valid:
  assumes "themes data \<noteq> []" "startDate data = Some st" "endDate data = Some en"
    "valid_date st" "1 \<le> fst (sub_days st 7)"
  shows "snd (get_stock_data S fetch data) =
     concat (map (\<lambda>th. concat (map (code_events fetch (sub_days st 7) en) (theme_codes th)))
               (themes data))"
  by (simp add: get_stock_data_valid [OF assms] process_themes_eq)

lemma bad_timeframe_unusable:
  "tf \<noteq> ''D'' \<Longrightarrow> tf \<noteq> ''W'' \<Longrightarrow> tf \<noteq> ''M'' \<Longrightarrow> \<not> any_usable fetch eff en tf ths"
  by (auto simp: any_usable_def usable_def list_ex_iff bad_timeframe_frame split: sum.splits)

text \<open>
  C10. For a request with a timeframe other than D, W and M that is complete otherwise,
  no validation rejects the timeframe: every code is read, the return calculator raises on
  every price series, no code contributes a period return or a stock-level table, and the
  response is the error response of status 500.
\<close>

theorem C10_unknown_timeframe:
  assumes "timeframe data = Some tf" "tf \<noteq> ''D''" "tf \<noteq> ''W''" "tf \<noteq> ''M''"
    and "themes data \<noteq> []" "startDate data = Some st" "endDate data = Some en"
    "valid_date st" "1 \<le> fst (sub_days st 7)"
  shows "fst (get_stock_data S fetch data) = Error500 \<and>
         (\<forall>price_df. resample_and_calculate_returns price_df tf = Inl ResampleRuleError) \<and>
         (\<forall>c start_date. code_returns fetch (sub_days st 7) en tf c = [] \<and>
              code_stock S fetch (sub_days st 7) en start_date tf c = []) \<and>
         concat (map fetched_code (snd (get_stock_data S fetch data))) =
           concat (map theme_codes (themes data))"
proof -
  have v: "themes data \<noteq> []" "startDate data = Some st" "endDate data = Some en"
    "valid_date st" "1 \<le> fst (sub_days st 7)" using assms by simp_all
  have r: "\<And>price_df. resample_and_calculate_returns price_df tf = Inl ResampleRuleError"
    using assms(2-4) by (simp add: bad_timeframe_raises)
  have f: "\<And>price_df. period_return_of price_df tf = Inl ResampleRuleError"
    using assms(2-4) by (simp add: bad_timeframe_frame)
  have e: "fst (get_stock_data S fetch data) = Error500"
    using assms(1) bad_timeframe_unusable [OF assms(2-4)]
    by (simp add: get_stock_data_valid [OF v] process_themes_eq foldl_put_theme_Nil)
  have c: "\<And>c start_date. code_returns fetch (sub_days st 7) en tf c = [] \<and>
              code_stock S fetch (sub_days st 7) en start_date tf c = []"
    using assms(2) by (auto simp: code_returns_def code_stock_def f split: sum.splits)
  have t: "concat (map fetched_code (snd (get_stock_data S fetch data))) =
           concat (map theme_codes (themes data))"
    by (simp add: trace_valid [OF v] fetched_codes_themes)
  show ?thesis using e r c t by blast
qed

theorem C10_unknown_timeframe_witness:
  "timeframe (request_example\<lparr>timeframe := Some ''Q''\<rparr>) = Some ''Q'' \<and>
   ''Q'' \<noteq> ''D'' \<and> ''Q'' \<noteq> ''W'' \<and> ''Q'' \<noteq> ''M'' \<and>
   themes (request_example\<lparr>timeframe := Some ''Q''\<rparr>) \<noteq> [] \<and>
   startDate (request_example\<lparr>timeframe := Some ''Q''\<rparr>) = Some (2024, 1, 8) \<and>
   endDate (request_example\<lparr>timeframe := Some ''Q''\<rparr>) = Some (2024, 1, 10) \<and>
   valid_date (2024, 1, 8) \<and> 1 \<le> fst (sub_days (2024, 1, 8) 7) \<and>
   get_stock_data [] fetch_example (request_example\<lparr>timeframe := Some ''Q''\<rparr>) =
     (Error500, [Fetch ''X'' (2024, 1, 1) (2024, 1, 10), Compute ''X''])"
proof -
  let ?d = "request_example\<lparr>timeframe := Some ''Q''\<rparr>"
  have a: "timeframe ?d = Some ''Q''" "''Q'' \<noteq> ''D''" "''Q'' \<noteq> ''W''" "''Q'' \<noteq> ''M''"
    "themes ?d \<noteq> []" "startDate ?d = Some (2024, 1, 8)" "endDate ?d = Some (2024, 1, 10)"
    "valid_date (2024, 1, 8)" "1 \<le> fst (sub_days (2024, 1, 8) 7)"
    by (simp_all add: request_example_def sub_days_def eval_nat_numeral days_in_month_def)
  have "fst (get_stock_data [] fetch_example ?d) = Error500"
    using C10_unknown_timeframe [OF a, of "[]" fetch_example] by simp
  moreover have "snd (get_stock_data [] fetch_example ?d) =
      [Fetch ''X'' (2024, 1, 1) (2024, 1, 10), Compute ''X'']"
    by (simp add: eval_defs resample_period_def fetch_example_def closes_example_def
        request_example_def resample_and_calculate_returns_def)
  ultimately show ?thesis using a by (simp add: prod_eq_iff)
qed

lemma div_pred:
  fixes p k :: int
  assumes "0 < k"
  shows "(p - 1) div k = p div k - (if p mod k = 0 then 1 else 0)"
proof (cases "p mod k = 0")
  case True
  have "k * (p div k) = p" using mult_div_mod_eq [of k p] True by simp
  then have "p - 1 = k * (p div k - 1) + (k - 1)" by (simp add: algebra_simps)
  then have "(p - 1) div k = p div k - 1"
    using assms int_div_pos_eq [of "p - 1" k "p div k - 1" "k - 1"] by simp
  with True show ?thesis by simp
next
  case False
  have "0 \<le> p mod k" "p mod k < k" using assms by simp_all
  with False have r: "0 \<le> p mod k - 1" "p mod k - 1 < k" by linarith+
  have "p - 1 = k * (p div k) + (p mod k - 1)" by simp
  then have "(p - 1) div k = p div k"
    using r int_div_pos_eq [of "p - 1" k "p div k" "p mod k - 1"] by simp
  with False show ?thesis by simp
qed

lemma mod_100_4: "(p :: int) mod 100 = 0 \<Longrightarrow> p mod 4 = 0"
  using mod_mod_cancel [of 4 100 p] by simp

lemma mod_400_100: "(p :: int) mod 400 = 0 \<Longrightarrow> p mod 100 = 0"
  using mod_mod_cancel [of 100 400 p] by simp

lemma leap_step_arith:
  fixes p d4 d100 d400 :: int
  assumes "b100 \<Longrightarrow> b4" "b400 \<Longrightarrow> b100"
  shows "p * 365 + d4 - d100 + d400 =
         (p - 1) * 365 + (d4 - (if b4 then 1 else 0)) - (d100 - (if b100 then 1 else 0)) +
         (d400 - (if b400 then 1 else 0)) +
         (if b4 \<and> (\<not> b100 \<or> b400) then 366 else 365)"
  using assms by (auto simp: left_diff_distrib)

lemma days_before_year_step:
  "days_before_year y = days_before_year (y - 1) + (if is_leap (y - 1) then 366 else 365)"
proof -
  have a: "(y - 1 - 1) div 4 = (y - 1) div 4 - (if (y - 1) mod 4 = 0 then 1 else 0)"
    by (rule div_pred) simp
  have b: "(y - 1 - 1) div 100 = (y - 1) div 100 - (if (y - 1) mod 100 = 0 then 1 else 0)"
    by (rule div_pred) simp
  have c: "(y - 1 - 1) div 400 = (y - 1) div 400 - (if (y - 1) mod 400 = 0 then 1 else 0)"
    by (rule div_pred) simp
  show ?thesis
    unfolding days_before_year_def is_leap_def Let_def a b c
    by (rule leap_step_arith) (erule mod_100_4, erule mod_400_100)
qed

lemma prev_day_on_calendar: "on_calendar d \<Longrightarrow> on_calendar (prev_day d)"
  by (cases d) (auto simp: days_in_month_def)

lemma days_before_month_step:
  "1 < m \<Longrightarrow> days_before_month y m = days_before_month y (m - 1) + days_in_month y (m - 1)"
  using upto_rec2 [of 1 "m - 1"] by (simp add: days_before_month_def)

lemma days_before_month_13: "days_before_month y 12 + 31 = (if is_leap y then 366 else 365)"
  by (simp add: days_before_month_def upto_rec1 days_in_month_def)

lemma days_before_month_1: "days_before_month y 1 = 0"
  by (simp add: days_before_month_def)

lemma toordinal_prev_day: "on_calendar d \<Longrightarrow> toordinal (prev_day d) = toordinal d - 1"
proof (cases d)
  case (fields y m dd)
  assume "on_calendar d"
  with fields show ?thesis
    using days_before_month_step [of m y] days_before_month_13 [of "y - 1"]
      days_before_year_step [of y] days_before_month_1 [of y]
    by (auto split: if_splits)
qed

lemma sub_days_on_calendar: "on_calendar d \<Longrightarrow> on_calendar (sub_days d n)"
  by (induction n) (simp_all add: sub_days_def prev_day_on_calendar)

lemma toordinal_sub_days:
  "on_calendar d \<Longrightarrow> toordinal (sub_days d n) = toordinal d - int n"
proof (induction n)
  case 0
  show ?case by (simp add: sub_days_def)
next
  case (Suc n)
  have "toordinal (sub_days d (Suc n)) = toordinal (prev_day (sub_days d n))"
    by (simp add: sub_days_def)
  also have "\<dots> = toordinal (sub_days d n) - 1"
    by (rule toordinal_prev_day) (rule sub_days_on_calendar [OF Suc.prems])
  finally show ?case using Suc by simp
qed

lemma valid_on_calendar: "valid_date d \<Longrightarrow> on_calendar d"
  by (cases d) simp

lemma fetch_start_events:
  "concat (map fetch_start (code_events fetch eff en c)) = [eff]"
  by (auto simp: code_events_def split: sum.splits)

lemma fetch_starts_theme:
  "list_all (\<lambda>s. s = eff) (concat (map fetch_start (concat (map (code_events fetch eff en) cs))))"
  by (induction cs) (simp_all add: fetch_start_events)

lemma fetch_starts_themes:
  "list_all (\<lambda>s. s = eff)
     (concat (map fetch_start
        (concat (map (\<lambda>th. concat (map (code_events fetch eff en) (theme_codes th))) ths))))"
  by (induction ths) (simp_all add: fetch_starts_theme)

lemma final_themed_returns_from:
  "list_all (\<lambda>(d, n, v). st \<le> d) (final_themed_returns st td)"
  by (auto simp: final_themed_returns_def loc_series_def list_all_iff)

lemma get_stock_data_invalid:
  assumes "\<not> (themes data \<noteq> [] \<and> startDate data \<noteq> None \<and> endDate data \<noteq> None \<and>
              valid_date (the (startDate data)) \<and> 1 \<le> fst (sub_days (the (startDate data)) 7))"
  shows "snd (get_stock_data S fetch data) = [] \<and>
         payload_of (fst (get_stock_data S fetch data)) = None"
  using assms
  by (auto simp: get_stock_data_def payload_of_def Let_def split: option.splits)
text \<open>
  C3. For a request with the start date st, every call of the price reader that the trace
  records has the date seven calendar days before st as the start of its range (for a
  valid st, the date whose ordinal is the ordinal of st minus 7), and every row of the theme
  returns of a successful response has a date from st on: the warm-up window is trimmed.
\<close>

theorem C3_effective_start_and_trim:
  assumes "startDate data = Some st"
  shows "list_all (\<lambda>s. s = sub_days st 7)
           (concat (map fetch_start (snd (get_stock_data S fetch data)))) \<and>
         (valid_date st \<longrightarrow> toordinal (sub_days st 7) = toordinal st - 7) \<and>
         (\<forall>p. fst (get_stock_data S fetch data) = Success p \<longrightarrow>
              list_all (\<lambda>(d, n, v). st \<le> d) (themed_returns p))"
proof -
  have o: "valid_date st \<longrightarrow> toordinal (sub_days st 7) = toordinal st - 7"
    using toordinal_sub_days [of st 7] valid_on_calendar by auto
  show ?thesis
  proof (cases "themes data \<noteq> [] \<and> endDate data \<noteq> None \<and> valid_date st \<and>
                1 \<le> fst (sub_days st 7)")
    case True
    then obtain en where v: "themes data \<noteq> []" "startDate data = Some st"
      "endDate data = Some en" "valid_date st" "1 \<le> fst (sub_days st 7)"
      using assms by auto
    have t: "list_all (\<lambda>s. s = sub_days st 7)
           (concat (map fetch_start (snd (get_stock_data S fetch data))))"
      by (simp only: trace_valid [OF v] fetch_starts_themes)
    have "\<And>p. fst (get_stock_data S fetch data) = Success p \<Longrightarrow>
              themed_returns p = final_themed_returns st
                (concat (map dated (foldl (put_theme fetch (sub_days st 7) en
                   (case timeframe data of None \<Rightarrow> ''D'' | Some t \<Rightarrow> t)) [] (themes data))))"
      by (auto simp: get_stock_data_valid [OF v] process_themes_eq split: if_splits)
    then show ?thesis using t o final_themed_returns_from by metis
  next
    case False
    then have "snd (get_stock_data S fetch data) = [] \<and>
         payload_of (fst (get_stock_data S fetch data)) = None"
      using assms by (intro get_stock_data_invalid) auto
    then show ?thesis using o by (auto simp: payload_of_def)
  qed
qed

theorem C3_effective_start_and_trim_witness:
  "startDate request_example = Some (2024, 1, 8) \<and> valid_date (2024, 1, 8) \<and>
   sub_days (2024, 1, 8) 7 = (2024, 1, 1) \<and>
   toordinal (2024, 1, 1) = toordinal (2024, 1, 8) - 7 \<and>
   snd (get_stock_data [] fetch_span request_example) =
     [Fetch ''X'' (2024, 1, 1) (2024, 1, 10), Compute ''X''] \<and>
   map_option themed_returns (payload_of (fst (get_stock_data [] fetch_span request_example))) =
     Some [((2024, 1, 8), ''T1'', Fin 5), ((2024, 1, 9), ''T1'', Fin 5),
           ((2024, 1, 10), ''T1'', Fin (- 10))]"
proof -
  have s: "startDate request_example = Some (2024, 1, 8)"
    by (simp add: request_example_def)
  have v: "valid_date (2024, 1, 8)" by (simp add: days_in_month_def)
  have d: "sub_days (2024, 1, 8) 7 = (2024, 1, 1)"
    by (simp add: sub_days_def eval_nat_numeral days_in_month_def)
  have e: "get_stock_data [] fetch_span request_example =
     (Success
        \<lparr>themed_returns =
           [((2024, 1, 8), ''T1'', Fin 5), ((2024, 1, 9), ''T1'', Fin 5),
            ((2024, 1, 10), ''T1'', Fin (- 10))],
         stock_level_returns =
           [((2024, 1, 8), ''X (X)'', Fin 5), ((2024, 1, 9), ''X (X)'', Fin 5),
            ((2024, 1, 10), ''X (X)'', Fin (- 10))],
         correlation_matrix =
           corr (loc_df (2024, 1, 8)
             (DataFrame
                [(''T1'',
                  [((2024, 1, 2), Fin 0), ((2024, 1, 3), Fin 0), ((2024, 1, 4), Fin 0),
                   ((2024, 1, 5), Fin 0),
                   ((2024, 1, 8), Fin (5629499534213125 / 1125899906842624)),
                   ((2024, 1, 9), Fin (5629499534213125 / 1125899906842624)),
                   ((2024, 1, 10), Fin (- (5629499534213119 / 562949953421312)))])]))\<rparr>,
      [Fetch ''X'' (2024, 1, 1) (2024, 1, 10), Compute ''X''])"
    by (simp add: eval_defs fl_values timestamp_ok_def fetch_span_def request_example_def)
  have "toordinal (sub_days (2024, 1, 8) 7) = toordinal (2024, 1, 8) - 7"
    using C3_effective_start_and_trim [OF s, of "[]" fetch_span] v by blast
  then show ?thesis using s v d by (simp add: e payload_of_def)
qed

text \<open>
  A code whose read raises or returns no rows, or on whose table the return calculator
  raises, is skipped: it adds nothing to the period returns of its theme and nothing to
  the stock-level tables, and the loop goes on (the trace above holds every code).
\<close>

lemma read_failure_skipped:
  "fetch c eff en = Inl e \<Longrightarrow>
   code_returns fetch eff en tf c = [] \<and> code_stock S fetch eff en st tf c = []"
  by (simp add: code_returns_def code_stock_def)

lemma empty_table_skipped:
  "fetch c eff en = Inr price_df \<Longrightarrow> frame_empty price_df \<Longrightarrow>
   code_returns fetch eff en tf c = [] \<and> code_stock S fetch eff en st tf c = []"
  by (simp add: code_returns_def code_stock_def)

lemma calculator_failure_skipped:
  "fetch c eff en = Inr price_df \<Longrightarrow> period_return_of price_df tf = Inl e \<Longrightarrow>
   code_returns fetch eff en tf c = [] \<and> code_stock S fetch eff en st tf c = []"
  by (auto simp: code_returns_def code_stock_def)


section \<open>Properties of the theme average and of the correlation\<close>





lemma set_union_index: "set (union_index cols) = (\<Union>s \<in> set cols. fst ` set s)"
  by (auto simp: union_index_def)


lemma theme_avg_return_table:
  "theme_avg_return cols =
     map (\<lambda>d. (d, row_mean (map (\<lambda>s. cell s d) cols))) (union_index cols)"
  by (simp add: theme_avg_return_def mean_axis1_def concat_axis1_def)



lemma mean_const: "xs \<noteq> [] \<Longrightarrow> \<forall>x \<in> set xs. x = c \<Longrightarrow> mean xs = c"
proof -
  assume ne: "xs \<noteq> []" and c: "\<forall>x \<in> set xs. x = c"
  have "sum_list xs = real (length xs) * c"
    using c by (induction xs) (simp_all add: distrib_right)
  then show ?thesis using ne by (simp add: mean_def)
qed

lemma sqsum_nonneg: "0 \<le> (\<Sum>x \<leftarrow> xs. (x - m) * (x - m))" for m :: real
  by (induction xs) simp_all

lemma sqsum_zero_iff:
  "(\<Sum>x \<leftarrow> xs. (x - m) * (x - m)) = 0 \<longleftrightarrow> (\<forall>x \<in> set xs. x = m)" for m :: real
proof (induction xs)
  case Nil
  show ?case by simp
next
  case (Cons a xs)
  have "(a - m) * (a - m) + (\<Sum>x \<leftarrow> xs. (x - m) * (x - m)) = 0 \<longleftrightarrow>
        (a - m) * (a - m) = 0 \<and> (\<Sum>x \<leftarrow> xs. (x - m) * (x - m)) = 0"
    by (rule add_nonneg_eq_0_iff) (simp_all add: sqsum_nonneg)
  with Cons show ?case by simp
qed

lemma ssqdm_nonneg: "0 \<le> ssqdm xs"
  by (simp add: ssqdm_def sqsum_nonneg)

lemma ssqdm_zero_iff: "ssqdm xs = 0 \<longleftrightarrow> (\<forall>x \<in> set xs. x = mean xs)"
  by (simp add: ssqdm_def sqsum_zero_iff)

lemma ball_const_eq: "\<forall>y \<in> S. y = c \<Longrightarrow> x \<in> S \<Longrightarrow> z \<in> S \<Longrightarrow> x = z"
proof -
  assume h: "\<forall>y \<in> S. y = c" and x: "x \<in> S" and z: "z \<in> S"
  from h x have "x = c" by (rule bspec)
  moreover from h z have "z = c" by (rule bspec)
  ultimately show "x = z" by simp
qed

lemma all_equal_iff: "all_equal xs \<longleftrightarrow> (\<forall>x \<in> set xs. \<forall>y \<in> set xs. x = y)"
proof (cases xs)
  case Nil
  then show ?thesis by simp
next
  case (Cons a r)
  have "(\<forall>y \<in> set r. y = a) \<longleftrightarrow> (\<forall>x \<in> set (a # r). \<forall>y \<in> set (a # r). x = y)"
  proof
    assume "\<forall>y \<in> set r. y = a"
    then have "\<forall>y \<in> set (a # r). y = a" by simp
    then show "\<forall>x \<in> set (a # r). \<forall>y \<in> set (a # r). x = y"
      by (intro ballI) (rule ball_const_eq)
  next
    assume "\<forall>x \<in> set (a # r). \<forall>y \<in> set (a # r). x = y"
    then show "\<forall>y \<in> set r. y = a" by simp
  qed
  with Cons show ?thesis by (simp add: list_all_iff)
qed

lemma ssqdm_zero_all_equal: "ssqdm xs = 0 \<longleftrightarrow> all_equal xs"
proof
  assume "ssqdm xs = 0"
  then have "\<forall>x \<in> set xs. x = mean xs" by (simp add: ssqdm_zero_iff)
  then show "all_equal xs" unfolding all_equal_iff by (intro ballI) (rule ball_const_eq)
next
  assume a: "all_equal xs"
  show "ssqdm xs = 0"
  proof (cases xs)
    case Nil
    then show ?thesis by (simp add: ssqdm_def)
  next
    case (Cons x r)
    with a have "\<forall>y \<in> set xs. y = x" by (auto simp: list_all_iff)
    moreover have "mean xs = x" by (rule mean_const) (use Cons \<open>\<forall>y \<in> set xs. y = x\<close> in simp_all)
    ultimately have "\<forall>y \<in> set xs. y = mean xs" by simp
    then show ?thesis by (simp add: ssqdm_zero_iff)
  qed
qed

lemma covsum_diag: "covsum (map (\<lambda>x. (x, x)) xs) = ssqdm xs"
  by (simp add: covsum_def ssqdm_def comp_def)

lemma pearson_diag:
  "pearson (map (\<lambda>x. (x, x)) xs) = (if all_equal xs then NaN else Fin 1)"
proof (cases "all_equal xs")
  case True
  then have "ssqdm xs = 0" by (simp add: ssqdm_zero_all_equal)
  then show ?thesis using True by (simp add: pearson_def comp_def)
next
  case False
  then have nz: "ssqdm xs \<noteq> 0" by (simp add: ssqdm_zero_all_equal)
  then have pos: "0 < ssqdm xs" using ssqdm_nonneg [of xs] by linarith
  have ne: "xs \<noteq> []" using False by auto
  have "sqrt (ssqdm xs * ssqdm xs) = ssqdm xs" using pos by simp
  then show ?thesis using False nz ne by (simp add: pearson_def comp_def covsum_diag)
qed

lemma covsum_swap: "covsum (map prod.swap ps) = covsum ps"
  by (simp add: covsum_def comp_def split_def mult.commute)

lemma pearson_swap: "pearson (map prod.swap ps) = pearson ps"
proof -
  have m: "map fst (map prod.swap ps) = map snd ps" "map snd (map prod.swap ps) = map fst ps"
    by simp_all
  have c: "ssqdm (map snd ps) * ssqdm (map fst ps) = ssqdm (map fst ps) * ssqdm (map snd ps)"
    by (rule mult.commute)
  show ?thesis
    unfolding pearson_def Let_def covsum_swap m c by simp
qed

lemma loc_col_map:
  "loc_col st idx (map f idx) = map f (filter (\<lambda>d. st \<le> d) idx)"
  by (induction idx) (simp_all add: loc_col_def)

lemma finite_pairs_map:
  "finite_pairs (map f ds) (map g ds) =
     concat (map (\<lambda>d. case (f d, g d) of (Fin x, Fin y) \<Rightarrow> [(x, y)] | _ \<Rightarrow> []) ds)"
proof (induction ds)
  case Nil
  show ?case by simp
next
  case (Cons d ds)
  then show ?case by (cases "f d"; cases "g d") simp_all
qed

lemma columns_loc_DataFrame:
  "columns (loc_df st (DataFrame td)) =
     map (\<lambda>(k, s). (k, map (cell s) (filter (\<lambda>d. st \<le> d) (union_index (map snd td))))) td"
  by (simp add: loc_df_def DataFrame_def Let_def loc_col_map split_def)

lemma map_of_map_snd:
  "map_of (map (\<lambda>(k, v). (k, f v)) xs) k = map_option f (map_of xs k)"
  by (induction xs) auto

lemma coefficient_corr:
  "coefficient (corr df) a b =
     (case map_of (columns df) a of
        None \<Rightarrow> None
      | Some ca \<Rightarrow> map_option (\<lambda>cb. pearson (finite_pairs ca cb)) (map_of (columns df) b))"
  by (simp add: coefficient_def corr_def map_of_map_snd split: option.splits)

lemma coefficient_table:
  "coefficient (corr (loc_df st (DataFrame td))) a b =
     (case map_of td a of
        None \<Rightarrow> None
      | Some sa \<Rightarrow> map_option (\<lambda>sb. pearson (pairwise_complete st td sa sb)) (map_of td b))"
  by (simp add: coefficient_corr columns_loc_DataFrame map_of_map_snd finite_pairs_map
      pairwise_complete_def option.map_comp comp_def split: option.splits)

lemma pairwise_complete_swap:
  "pairwise_complete st td sb sa = map prod.swap (pairwise_complete st td sa sb)"
proof -
  have "(case (cell sb d, cell sa d) of (Fin x, Fin y) \<Rightarrow> [(x, y)] | _ \<Rightarrow> []) =
        map prod.swap (case (cell sa d, cell sb d) of (Fin x, Fin y) \<Rightarrow> [(x, y)] | _ \<Rightarrow> [])"
    for d
    by (cases "cell sa d"; cases "cell sb d") simp_all
  then show ?thesis
    by (simp add: pairwise_complete_def map_concat comp_def)
qed

lemma pearson_pairwise_symmetric:
  "pearson (pairwise_complete st td sb sa) = pearson (pairwise_complete st td sa sb)"
  by (simp only: pairwise_complete_swap [of st td sb sa] pearson_swap)

lemma coefficient_symmetric:
  "coefficient (corr (loc_df st (DataFrame td))) a b =
   coefficient (corr (loc_df st (DataFrame td))) b a"
proof (cases "map_of td a")
  case None
  then show ?thesis by (cases "map_of td b") (simp_all add: coefficient_table)
next
  case sa: (Some sa)
  show ?thesis
  proof (cases "map_of td b")
    case None
    with sa show ?thesis by (simp add: coefficient_table)
  next
    case (Some sb)
    with sa show ?thesis
      by (simp add: coefficient_table pearson_pairwise_symmetric [of st td sb sa])
  qed
qed

lemma pairwise_complete_diag:
  "pairwise_complete st td sa sa =
     map (\<lambda>x. (x, x))
       (concat (map (\<lambda>d. case cell sa d of Fin x \<Rightarrow> [x] | _ \<Rightarrow> [])
                  (filter (\<lambda>d. st \<le> d) (union_index (map snd td)))))"
proof -
  have "(case (cell sa d, cell sa d) of (Fin x, Fin y) \<Rightarrow> [(x, y)] | _ \<Rightarrow> []) =
        map (\<lambda>x. (x, x)) (case cell sa d of Fin x \<Rightarrow> [x] | _ \<Rightarrow> [])" for d
    by (cases "cell sa d") simp_all
  then show ?thesis
    by (simp add: pairwise_complete_def map_concat comp_def)
qed

lemma cell_Fin_iff:
  assumes "distinct (map fst s)"
  shows "cell s d = Fin x \<longleftrightarrow> (d, Fin x) \<in> set s"
proof -
  have "cell s d = Fin x \<longleftrightarrow> map_of s d = Some (Fin x)"
    by (cases "map_of s d") (simp_all add: cell_def)
  then show ?thesis using assms by simp
qed

lemma set_joint_finite:
  assumes "distinct (map fst s)" "fst ` set s \<subseteq> set idx"
  shows "set (concat (map (\<lambda>d. case cell s d of Fin x \<Rightarrow> [x] | _ \<Rightarrow> [])
                  (filter (\<lambda>d. st \<le> d) idx))) =
         set (finite_from st s)"
proof -
  have l: "set (concat (map (\<lambda>d. case cell s d of Fin x \<Rightarrow> [x] | _ \<Rightarrow> [])
                  (filter (\<lambda>d. st \<le> d) idx))) =
           {x. \<exists>d \<in> set idx. st \<le> d \<and> cell s d = Fin x}"
    by (auto split: fval.splits)
  have r: "set (finite_from st s) = {x. \<exists>d. st \<le> d \<and> (d, Fin x) \<in> set s}"
    by (auto simp: finite_from_def loc_series_def split: fval.splits)
  have h: "(\<exists>d \<in> set idx. st \<le> d \<and> cell s d = Fin x) \<longleftrightarrow>
        (\<exists>d. st \<le> d \<and> (d, Fin x) \<in> set s)" for x
  proof
    assume "\<exists>d \<in> set idx. st \<le> d \<and> cell s d = Fin x"
    then show "\<exists>d. st \<le> d \<and> (d, Fin x) \<in> set s"
      by (auto simp: cell_Fin_iff [OF assms(1)])
  next
    assume "\<exists>d. st \<le> d \<and> (d, Fin x) \<in> set s"
    then obtain d where d: "st \<le> d" "(d, Fin x) \<in> set s" by blast
    then have "fst (d, Fin x) \<in> fst ` set s" by (intro imageI)
    then have "d \<in> set idx" using assms(2) by auto
    with d show "\<exists>d \<in> set idx. st \<le> d \<and> cell s d = Fin x"
      by (auto simp: cell_Fin_iff [OF assms(1)])
  qed
  show ?thesis by (simp only: l r h)
qed

lemma all_equal_set: "set xs = set ys \<Longrightarrow> all_equal xs = all_equal ys"
  by (simp add: all_equal_iff)

lemma distinct_union_index: "distinct (union_index cols)"
  by (simp add: union_index_def)

lemma distinct_theme_entry: "distinct (map fst (dropna (theme_avg_return cols)))"
proof -
  have "map fst (filter P (map (\<lambda>d. (d, f d)) idx)) = filter (\<lambda>d. P (d, f d)) idx"
    for P :: "date \<times> fval \<Rightarrow> bool" and f and idx
    by (induction idx) simp_all
  then show ?thesis
    by (simp add: theme_avg_return_table dropna_def distinct_union_index)
qed

lemma set_update_subset: "set (AList.update k v al) \<subseteq> insert (k, v) (set al)"
  by (induction al) auto

lemma dated_entry: "(a, s) \<in> set (concat (map dated td)) \<longleftrightarrow> (a, Dated s) \<in> set td"
proof (induction td)
  case Nil
  show ?case by simp
next
  case (Cons e td)
  obtain b t where e: "e = (b, t)" by (cases e)
  show ?case using Cons by (cases t) (auto simp: e)
qed

lemma theme_entry_distinct: "theme_entry rs = Dated s \<Longrightarrow> distinct (map fst s)"
  by (auto simp: theme_entry_def distinct_theme_entry split: if_splits)

lemma put_theme_distinct:
  assumes "\<And>a s. (a, Dated s) \<in> set td \<Longrightarrow> distinct (map fst s)"
    and "(a, Dated s) \<in> set (put_theme fetch eff en tf td th)"
  shows "distinct (map fst s)"
proof -
  consider "(a, Dated s) \<in> set td"
    | "Dated s = theme_entry (theme_returns fetch eff en tf th)"
    using assms(2) set_update_subset [of "theme_name th" _ td]
    by (auto simp: put_theme_def split: if_splits)
  then show ?thesis
  proof cases
    case 1
    then show ?thesis by (rule assms(1))
  next
    case 2
    then show ?thesis using theme_entry_distinct [of _ s] by simp
  qed
qed

lemma foldl_put_theme_distinct:
  "(\<And>a s. (a, Dated s) \<in> set td \<Longrightarrow> distinct (map fst s)) \<Longrightarrow>
   (a, Dated s) \<in> set (foldl (put_theme fetch eff en tf) td ths) \<Longrightarrow> distinct (map fst s)"
proof (induction ths arbitrary: td)
  case Nil
  then show ?case by simp
next
  case (Cons th ths)
  show ?case
  proof (rule Cons.IH [of "put_theme fetch eff en tf td th"])
    fix b t
    assume "(b, Dated t) \<in> set (put_theme fetch eff en tf td th)"
    then show "distinct (map fst t)"
      using put_theme_distinct [of td b t fetch eff en tf th] Cons.prems(1) by blast
  next
    show "(a, Dated s) \<in> set (foldl (put_theme fetch eff en tf) (put_theme fetch eff en tf td th) ths)"
      using Cons.prems(2) by simp
  qed
qed

lemma themed_table_distinct:
  assumes "map_of (themed_table fetch data) a = Some sa"
  shows "distinct (map fst sa)"
proof -
  have m: "(a, sa) \<in> set (themed_table fetch data)" by (rule map_of_SomeD [OF assms])
  show ?thesis
  proof (cases "startDate data")
    case None
    then show ?thesis using m by (simp add: themed_table_def)
  next
    case st: (Some st)
    show ?thesis
    proof (cases "endDate data")
      case None
      with st show ?thesis using m by (simp add: themed_table_def)
    next
      case (Some en)
      with st have "themed_table fetch data =
          concat (map dated (foldl (put_theme fetch (sub_days st 7) en
                   (case timeframe data of None \<Rightarrow> ''D'' | Some t \<Rightarrow> t)) [] (themes data)))"
        by (simp add: themed_table_def)
      then have "(a, Dated sa) \<in> set (foldl (put_theme fetch (sub_days st 7) en
                   (case timeframe data of None \<Rightarrow> ''D'' | Some t \<Rightarrow> t)) [] (themes data))"
        using m by (simp only: dated_entry)
      then show ?thesis by (rule foldl_put_theme_distinct [rotated]) simp
    qed
  qed
qed

lemma themed_table_dates:
  assumes "map_of (themed_table fetch data) a = Some sa"
  shows "fst ` set sa \<subseteq> set (union_index (map snd (themed_table fetch data)))"
proof -
  have "sa \<in> set (map snd (themed_table fetch data))"
    using map_of_SomeD [OF assms] by force
  then show ?thesis by (auto simp: set_union_index)
qed

lemma diagonal_coefficient:
  assumes "map_of (themed_table fetch data) a = Some sa"
  shows "coefficient (corr (loc_df st (DataFrame (themed_table fetch data)))) a a =
     Some (if all_equal (finite_from st sa) then NaN else Fin 1)"
proof -
  let ?xs = "concat (map (\<lambda>d. case cell sa d of Fin x \<Rightarrow> [x] | _ \<Rightarrow> [])
       (filter (\<lambda>d. st \<le> d) (union_index (map snd (themed_table fetch data)))))"
  have "set ?xs = set (finite_from st sa)"
    by (rule set_joint_finite [OF themed_table_distinct [OF assms] themed_table_dates [OF assms]])
  then have "all_equal ?xs = all_equal (finite_from st sa)" by (rule all_equal_set)
  then show ?thesis
    using assms by (simp add: coefficient_table pairwise_complete_diag pearson_diag)
qed

lemma success_matrix:
  assumes "fst (get_stock_data S fetch data) = Success p" "startDate data = Some st"
  shows "correlation_matrix p = corr (loc_df st (DataFrame (themed_table fetch data)))"
proof -
  have ok: "payload_of (fst (get_stock_data S fetch data)) \<noteq> None"
    using assms(1) by (simp add: payload_of_def)
  have "themes data \<noteq> [] \<and> startDate data \<noteq> None \<and> endDate data \<noteq> None \<and>
      valid_date (the (startDate data)) \<and> 1 \<le> fst (sub_days (the (startDate data)) 7)"
  proof (rule ccontr)
    assume n: "\<not> (themes data \<noteq> [] \<and> startDate data \<noteq> None \<and> endDate data \<noteq> None \<and>
      valid_date (the (startDate data)) \<and> 1 \<le> fst (sub_days (the (startDate data)) 7))"
    have "payload_of (fst (get_stock_data S fetch data)) = None"
      using get_stock_data_invalid [OF n] by simp
    with ok show False by simp
  qed
  then obtain en where v: "themes data \<noteq> []" "startDate data = Some st"
    "endDate data = Some en" "valid_date st" "1 \<le> fst (sub_days st 7)"
    using assms(2) by auto
  have t: "themed_table fetch data =
      concat (map dated (foldl (put_theme fetch (sub_days st 7) en
               (case timeframe data of None \<Rightarrow> ''D'' | Some t \<Rightarrow> t)) [] (themes data)))"
    using v by (simp add: themed_table_def)
  show ?thesis
    using assms(1)
    by (auto simp: get_stock_data_valid [OF v] process_themes_eq t split: if_splits)
qed

text \<open>
  C6, amended. In every successful response the correlation matrix is symmetric; the
  coefficient of two themes of the per-theme table is the Pearson correlation of their
  pairwise-complete observations (the dates of the joint table from the start date on where
  both themes have a finite value); and the coefficient of a theme with itself is 1 when
  its values from the start date on are not all equal, and NaN when they are (also when
  there are two or more of them).
\<close>

theorem C6_correlation_matrix:
  assumes "fst (get_stock_data S fetch data) = Success p" and "startDate data = Some st"
  shows "(\<forall>a b. coefficient (correlation_matrix p) a b = coefficient (correlation_matrix p) b a) \<and>
         (\<forall>a b sa sb.
            map_of (themed_table fetch data) a = Some sa \<longrightarrow>
            map_of (themed_table fetch data) b = Some sb \<longrightarrow>
            coefficient (correlation_matrix p) a b =
              Some (pearson (pairwise_complete st (themed_table fetch data) sa sb))) \<and>
         (\<forall>a sa.
            map_of (themed_table fetch data) a = Some sa \<longrightarrow>
            coefficient (correlation_matrix p) a a =
              Some (if all_equal (finite_from st sa) then NaN else Fin 1))"
proof -
  have m: "correlation_matrix p = corr (loc_df st (DataFrame (themed_table fetch data)))"
    by (rule success_matrix [OF assms])
  have s: "\<forall>a b. coefficient (correlation_matrix p) a b = coefficient (correlation_matrix p) b a"
    unfolding m using coefficient_symmetric by blast
  have c: "\<forall>a b sa sb.
            map_of (themed_table fetch data) a = Some sa \<longrightarrow>
            map_of (themed_table fetch data) b = Some sb \<longrightarrow>
            coefficient (correlation_matrix p) a b =
              Some (pearson (pairwise_complete st (themed_table fetch data) sa sb))"
    unfolding m by (simp add: coefficient_table)
  have d: "\<forall>a sa.
            map_of (themed_table fetch data) a = Some sa \<longrightarrow>
            coefficient (correlation_matrix p) a a =
              Some (if all_equal (finite_from st sa) then NaN else Fin 1)"
    unfolding m using diagonal_coefficient by blast
  show ?thesis using s c d by blast
qed

text \<open>
  C6, as the specification states it (1.0 on the diagonal for every theme with at least two
  aligned observations), fails: with a constant close the theme has the two returns 0 and 0
  from the start date on, and its coefficient with itself is NaN.
\<close>

theorem C6_counterexample:
  "get_stock_data [] fetch_constant request_example =
     (Success
        \<lparr>themed_returns = [((2024, 1, 9), ''T1'', Fin 0), ((2024, 1, 10), ''T1'', Fin 0)],
         stock_level_returns = [((2024, 1, 9), ''X (X)'', Fin 0), ((2024, 1, 10), ''X (X)'', Fin 0)],
         correlation_matrix = [(''T1'', [(''T1'', NaN)])]\<rparr>,
      [Fetch ''X'' (2024, 1, 1) (2024, 1, 10), Compute ''X''])"
  by (simp add: eval_defs corr_defs fl_values timestamp_ok_def fetch_constant_def
      request_example_def)

theorem C6_correlation_matrix_witness:
  "payload_of (fst (get_stock_data [] fetch_two request_two)) \<noteq> None \<and>
   startDate request_two = Some (2024, 1, 8) \<and>
   map_of (themed_table fetch_two request_two) ''T1'' =
     Some [((2024, 1, 8), Fin 0), ((2024, 1, 9), Fin 50), ((2024, 1, 10), Fin (- 50))] \<and>
   map_of (themed_table fetch_two request_two) ''T2'' =
     Some [((2024, 1, 8), Fin 100), ((2024, 1, 10), Fin 50)] \<and>
   map_option (\<lambda>p. coefficient (correlation_matrix p) ''T1'' ''T2'')
       (payload_of (fst (get_stock_data [] fetch_two request_two))) =
     Some (Some (pearson [(0, 100), (- 50, 50)])) \<and>
   map_option (\<lambda>p. coefficient (correlation_matrix p) ''T2'' ''T1'')
       (payload_of (fst (get_stock_data [] fetch_two request_two))) =
     Some (Some (pearson [(0, 100), (- 50, 50)])) \<and>
   map_option (\<lambda>p. coefficient (correlation_matrix p) ''T1'' ''T1'')
       (payload_of (fst (get_stock_data [] fetch_two request_two))) =
     Some (Some (Fin 1))"
proof -
  let ?sa = "[((2024, 1, 8), Fin 0), ((2024, 1, 9), Fin 50), ((2024, 1, 10), Fin (- 50))] :: series"
  let ?sb = "[((2024, 1, 8), Fin 100), ((2024, 1, 10), Fin 50)] :: series"
  have f: "foldl (put_theme fetch_two (sub_days (2024, 1, 8) 7) (2024, 1, 10)
       (case timeframe request_two of None \<Rightarrow> ''D'' | Some t \<Rightarrow> t)) [] (themes request_two) =
     [(''T1'', Dated ?sa), (''T2'', Dated ?sb)]"
    by (simp add: put_theme_def theme_returns_def code_returns_def request_two_def
        fetch_two_def eval_defs fl_values)
  have v: "themes request_two \<noteq> []" "startDate request_two = Some (2024, 1, 8)"
    "endDate request_two = Some (2024, 1, 10)" "valid_date (2024, 1, 8)"
    "1 \<le> fst (sub_days (2024, 1, 8) 7)"
    by (simp_all add: request_two_def sub_days_def eval_nat_numeral days_in_month_def)
  have t: "themed_table fetch_two request_two = [(''T1'', ?sa), (''T2'', ?sb)]"
    using v(2,3) by (simp add: themed_table_def f)
  have s: "startDate request_two = Some (2024, 1, 8)" by (simp add: request_two_def)
  have "payload_of (fst (get_stock_data [] fetch_two request_two)) \<noteq> None"
    by (simp add: get_stock_data_valid [OF v] process_themes_eq f payload_of_def
        timestamp_ok_def)
  then obtain p where p: "fst (get_stock_data [] fetch_two request_two) = Success p"
    by (auto simp: payload_of_def split: response.splits)
  have ma: "map_of (themed_table fetch_two request_two) ''T1'' = Some ?sa"
    and mb: "map_of (themed_table fetch_two request_two) ''T2'' = Some ?sb"
    by (simp_all add: t)
  have pc: "pairwise_complete (2024, 1, 8) [(''T1'', ?sa), (''T2'', ?sb)] ?sa ?sb =
      [(0, 100), (- 50, 50)]"
    by (simp add: pairwise_complete_def union_index_def cell_def)
  have ne: "\<not> all_equal (finite_from (2024, 1, 8) ?sa)"
    by (simp add: finite_from_def loc_series_def)
  note c = C6_correlation_matrix [OF p s]
  have sym: "coefficient (correlation_matrix p) ''T2'' ''T1'' =
      coefficient (correlation_matrix p) ''T1'' ''T2''"
    using c by blast
  have "coefficient (correlation_matrix p) ''T1'' ''T2'' =
      Some (pearson (pairwise_complete (2024, 1, 8) (themed_table fetch_two request_two) ?sa ?sb))"
    using c ma mb by blast
  then have c1: "coefficient (correlation_matrix p) ''T1'' ''T2'' =
      Some (pearson [(0, 100), (- 50, 50)])"
    by (simp only: t pc)
  have c2: "coefficient (correlation_matrix p) ''T2'' ''T1'' =
      Some (pearson [(0, 100), (- 50, 50)])"
    by (simp only: sym c1)
  have "coefficient (correlation_matrix p) ''T1'' ''T1'' =
      Some (if all_equal (finite_from (2024, 1, 8) ?sa) then NaN else Fin 1)"
    using c ma by blast
  then have c3: "coefficient (correlation_matrix p) ''T1'' ''T1'' = Some (Fin 1)"
    using ne by simp
  show ?thesis using p s ma mb c1 c2 c3 by (simp add: payload_of_def)
qed

end
